theory Spec2Isabelle
  imports Complex_Main "HOL-Library.Log_Nat"
begin

section \<open>JavaScript values\<close>

text \<open>
  Values that travel in JSON request bodies and that the handlers inspect with
  \<^verbatim>\<open>!x\<close>, \<^verbatim>\<open>typeof x\<close> and \<^verbatim>\<open>||\<close>. Numbers are
  exact rationals. An object is its list of key/value pairs; a parsed body has each key
  once.
\<close>

datatype jsval =
    JUndefined
  | JNull
  | JBool bool
  | JNum rat
  | JStr string
  | JArr "jsval list"
  | JObj "(string \<times> jsval) list"

text \<open>JavaScript's ToBoolean.\<close>

fun truthy :: "jsval \<Rightarrow> bool" where
  "truthy JUndefined = False"
| "truthy JNull = False"
| "truthy (JBool b) = b"
| "truthy (JNum n) = (n \<noteq> 0)"
| "truthy (JStr s) = (s \<noteq> [])"
| "truthy (JArr xs) = True"
| "truthy (JObj kvs) = True"

fun js_typeof :: "jsval \<Rightarrow> string" where
  "js_typeof JUndefined = ''undefined''"
| "js_typeof JNull = ''object''"
| "js_typeof (JBool b) = ''boolean''"
| "js_typeof (JNum n) = ''number''"
| "js_typeof (JStr s) = ''string''"
| "js_typeof (JArr xs) = ''object''"
| "js_typeof (JObj kvs) = ''object''"

text \<open>Property access \<^verbatim>\<open>obj.k\<close> on an object: a missing key reads as undefined.\<close>

definition field :: "(string \<times> jsval) list \<Rightarrow> string \<Rightarrow> jsval" where
  "field kvs k = (case map_of kvs k of None \<Rightarrow> JUndefined | Some v \<Rightarrow> v)"

section \<open>The libraries the handlers call\<close>

subsection \<open>bcryptjs\<close>

text \<open>
  The salted one-way hash is a free constructor over the salt and the plaintext, in the
  manner of symbolic protocol models: two hashes are equal exactly when salt and plaintext
  are. \<^verbatim>\<open>bcrypt.hash(s, salt)\<close> rejects with
  \<^verbatim>\<open>Error("Illegal arguments: " + typeof s + ", " + typeof salt)\<close> unless \<^verbatim>\<open>s\<close> is
  a string; \<^verbatim>\<open>bcrypt.compare(s, hash)\<close> does the same, and otherwise hashes
  \<^verbatim>\<open>s\<close> again with the salt stored in \<^verbatim>\<open>hash\<close> and compares the results.
\<close>

datatype bhash = Bcrypt (salt_of: string) (plain_of: string)

definition bcrypt_hash :: "jsval \<Rightarrow> string \<Rightarrow> string + bhash" where
  "bcrypt_hash s salt =
     (case s of
        JStr pw \<Rightarrow> Inr (Bcrypt salt pw)
      | _ \<Rightarrow> Inl (''Illegal arguments: '' @ js_typeof s @ '', string''))"

definition bcrypt_compare :: "jsval \<Rightarrow> bhash \<Rightarrow> string + bool" where
  "bcrypt_compare s h =
     (case s of
        JStr pw \<Rightarrow> Inr (Bcrypt (salt_of h) pw = h)
      | _ \<Rightarrow> Inl (''Illegal arguments: '' @ js_typeof s @ '', string''))"

subsection \<open>jsonwebtoken\<close>

text \<open>
  A signed token is its payload together with the key whose signature it carries.
  \<^verbatim>\<open>jwt.sign({id}, secret, {expiresIn})\<close> stamps \<^verbatim>\<open>iat = floor(Date.now() / 1000)\<close>
  and \<^verbatim>\<open>exp = iat + expiresIn\<close> (in seconds), and throws when the secret has no
  value. Times passed to the model are \<^verbatim>\<open>Date.now()\<close>, in milliseconds.
\<close>

datatype jwt = Jwt (jwt_id: nat) (jwt_iat: int) (jwt_exp: int) (signed_with: string)

definition seven_days :: int where
  \<comment> \<open>the time span \<^verbatim>\<open>"7d"\<close>, in seconds\<close>
  "seven_days = 7 * 24 * 60 * 60"

definition jwt_sign :: "nat \<Rightarrow> string option \<Rightarrow> int \<Rightarrow> int \<Rightarrow> string + jwt" where
  "jwt_sign uid secret expiresIn now =
     (case secret of
        None \<Rightarrow> Inl ''secretOrPrivateKey must have a value''
      | Some k \<Rightarrow>
          if k = [] then Inl ''secretOrPrivateKey must have a value''
          else (let iat = now div 1000 in Inr (Jwt uid iat (iat + expiresIn) k)))"

section \<open>Responses\<close>

text \<open>
  A response body before it is serialised: JSON whose leaves may also be a signed token,
  a document identifier or a date, each of which is sent as a string.
\<close>

datatype out =
    OVal jsval
  | OStr string
  | OJwt jwt
  | OOid nat
  | OIso int
  | OObj "(string \<times> out) list"

datatype response = Response (status: nat) (json: out)

definition member :: "out \<Rightarrow> string \<Rightarrow> out option" where
  \<comment> \<open>the value a body holds under a key, if it has that key\<close>
  "member b k = (case b of OObj kvs \<Rightarrow> map_of kvs k | _ \<Rightarrow> None)"

definition msg :: "string \<Rightarrow> out" where
  \<comment> \<open>the body \<^verbatim>\<open>{ msg: m }\<close>\<close>
  "msg m = OObj [(''msg'', OStr m)]"

section \<open>Credential store\<close>

text \<open>
  Modelled from the spec: the User model (\<^verbatim>\<open>models/User.js\<close>) is not among the
  sources. The spec describes a document store with lookup by field and
  unique-constrained insert, whose User has an identity assigned at creation, a name, a
  unique email, a secret hash and interests, with email and secret required and non-empty.
  The collection is the list of its documents in insertion order.
\<close>

record user =
  u_id :: nat
  u_name :: jsval
  u_email :: jsval
  u_password :: bhash
  u_interests :: jsval

type_synonym store = "user list"

text \<open>
  Modelled from the spec: \<^verbatim>\<open>User.findOne({ email })\<close>, the lookup by field. It
  returns the first document whose email equals the one asked for, or null.
\<close>

definition findOne :: "store \<Rightarrow> jsval \<Rightarrow> user option" where
  "findOne st e = find (\<lambda>u. u_email u = e) st"

text \<open>
  Modelled from the spec: the identity assigned at creation, here one more than every
  identity in the collection.
\<close>

definition fresh_id :: "store \<Rightarrow> nat" where
  "fresh_id st = Suc (fold max (map u_id st) 0)"

text \<open>
  Modelled from the spec: \<^verbatim>\<open>User.create\<close>, the unique-constrained insert. It throws
  when the email is not a non-empty string or is already in the collection, and otherwise
  appends the new document. The password field receives the hash, which is never empty.
\<close>

definition User_create :: "store \<Rightarrow> jsval \<Rightarrow> jsval \<Rightarrow> bhash \<Rightarrow> jsval \<Rightarrow> string + (user \<times> store)" where
  \<comment> \<open>\<^verbatim>\<open>User.create({ name, email, password, interests })\<close>; \<open>Inl\<close> is the message of
      the error thrown\<close>
  "User_create st name email hash interests =
     (case email of
        JStr e \<Rightarrow>
          if e = [] then Inl ''User validation failed: email: Path `email` is required.''
          else if findOne st email \<noteq> None then Inl ''E11000 duplicate key error''
          else (let u = \<lparr>u_id = fresh_id st, u_name = name, u_email = email,
                           u_password = hash, u_interests = interests\<rparr>
                in Inr (u, st @ [u]))
      | _ \<Rightarrow> Inl ''User validation failed: email: Path `email` is required.'')"

section \<open>Credential issuer: \<^verbatim>\<open>routes/auth.js\<close>\<close>

text \<open>
  \<^verbatim>\<open>POST /register\<close>. The salt is the value \<^verbatim>\<open>bcrypt.genSalt(10)\<close> draws. Every
  exception is caught and answered with status 500 and the error's message.
\<close>

definition register :: "store \<Rightarrow> (string \<times> jsval) list \<Rightarrow> string \<Rightarrow> response \<times> store" where
  "register st body salt =
     (let name = field body ''name''; email = field body ''email'';
          password = field body ''password''; interests = field body ''interests''
      in case findOne st email of
           Some existing \<Rightarrow> (Response 400 (msg ''User already exists''), st)
         | None \<Rightarrow>
             (case bcrypt_hash password salt of
                Inl err \<Rightarrow> (Response 500 (msg err), st)
              | Inr hash \<Rightarrow>
                  (case User_create st name email hash interests of
                     Inl err \<Rightarrow> (Response 500 (msg err), st)
                   | Inr (u, st') \<Rightarrow> (Response 200 (msg ''User registered successfully''), st'))))"

text \<open>
  \<^verbatim>\<open>POST /login\<close>, with \<^verbatim>\<open>process.env.JWT_SECRET\<close> and \<^verbatim>\<open>Date.now()\<close> as
  arguments. It reads the store and never writes it.
\<close>

definition login :: "string option \<Rightarrow> int \<Rightarrow> store \<Rightarrow> (string \<times> jsval) list \<Rightarrow> response" where
  "login secret now st body =
     (let email = field body ''email''; password = field body ''password''
      in case findOne st email of
           None \<Rightarrow> Response 400 (msg ''User not found'')
         | Some u \<Rightarrow>
             (case bcrypt_compare password (u_password u) of
                Inl err \<Rightarrow> Response 500 (msg err)
              | Inr isMatch \<Rightarrow>
                  if \<not> isMatch then Response 400 (msg ''Invalid credentials'')
                  else (case jwt_sign (u_id u) secret seven_days now of
                          Inl err \<Rightarrow> Response 500 (msg err)
                        | Inr token \<Rightarrow>
                            Response 200
                              (OObj [(''token'', OJwt token),
                                     (''user'', OObj [(''id'', OOid (u_id u)),
                                                      (''name'', OVal (u_name u)),
                                                      (''email'', OVal (u_email u))])]))))"

text \<open>The failures of the spec's taxonomy, as the responses the handlers send.\<close>

abbreviation DuplicateIdentity :: response where
  "DuplicateIdentity \<equiv> Response 400 (msg ''User already exists'')"

abbreviation IdentityNotFound :: response where
  "IdentityNotFound \<equiv> Response 400 (msg ''User not found'')"

abbreviation InvalidCredential :: response where
  "InvalidCredential \<equiv> Response 400 (msg ''Invalid credentials'')"

text \<open>A run of registration requests, each with the salt drawn for it.\<close>

fun registers :: "store \<Rightarrow> ((string \<times> jsval) list \<times> string) list \<Rightarrow> store" where
  "registers st [] = st"
| "registers st ((body, salt) # rs) = registers (snd (register st body salt)) rs"

section \<open>Session guard\<close>

text \<open>
  Modelled from the spec: the auth middleware (\<^verbatim>\<open>middleware/auth.js\<close>) is not among
  the sources. The spec has it fail with MissingToken if no token is attached, with
  InvalidToken if signature verification fails or the token is malformed, and with
  ExpiredToken if the current time is past the expiry; a token signed with another secret
  is InvalidToken and never ExpiredToken, so the signature is judged first. On success it
  attaches the caller's identity to the request. The text of the
  \<^verbatim>\<open>x-auth-token\<close> header is either a signed token or text that is no token.
\<close>

datatype guard_failure = MissingToken | InvalidToken | ExpiredToken

datatype credential = Token jwt | Garbled string

definition authenticate :: "string option \<Rightarrow> int \<Rightarrow> credential option \<Rightarrow> guard_failure + nat" where
  "authenticate secret now incoming =
     (case incoming of
        None \<Rightarrow> Inl MissingToken
      | Some (Garbled s) \<Rightarrow> Inl InvalidToken
      | Some (Token t) \<Rightarrow>
          if secret = None \<or> secret = Some [] \<or> secret \<noteq> Some (signed_with t)
          then Inl InvalidToken
          else if jwt_exp t * 1000 < now then Inl ExpiredToken
          else Inr (jwt_id t))"

section \<open>Chat endpoint: \<^verbatim>\<open>routes/chat.js\<close>\<close>

subsection \<open>Strings\<close>

text \<open>
  Message text is a list of 8-bit code units (the Latin-1 range of JavaScript's strings).
  There \<^verbatim>\<open>trim\<close> removes TAB, LF, VT, FF, CR, space and the no-break space from
  both ends, and \<^verbatim>\<open>toLowerCase\<close> adds 32 to the codes of A to Z and of the
  accented capitals 0xC0 to 0xDE other than the multiplication sign 0xD7, which is to set
  the bit of value 32.
\<close>

definition isWhiteSpace :: "char \<Rightarrow> bool" where
  "isWhiteSpace c =
     (c \<in> set [CHR 0x09, CHR 0x0A, CHR 0x0B, CHR 0x0C, CHR 0x0D, CHR 0x20, CHR 0xA0])"

definition trim :: "string \<Rightarrow> string" where
  "trim s = rev (dropWhile isWhiteSpace (rev (dropWhile isWhiteSpace s)))"

fun lower_char :: "char \<Rightarrow> char" where
  "lower_char (Char b0 b1 b2 b3 b4 b5 b6 b7) =
     (let n = of_char (Char b0 b1 b2 b3 b4 b5 b6 b7) :: nat
      in if (65 \<le> n \<and> n \<le> 90) \<or> (192 \<le> n \<and> n \<le> 222 \<and> n \<noteq> 215)
         then Char b0 b1 b2 b3 b4 True b6 b7
         else Char b0 b1 b2 b3 b4 b5 b6 b7)"

definition toLowerCase :: "string \<Rightarrow> string" where
  "toLowerCase s = map lower_char s"

fun startsWith :: "string \<Rightarrow> string \<Rightarrow> bool" where
  "startsWith s [] = True"
| "startsWith [] (k # ks) = False"
| "startsWith (c # cs) (k # ks) = (c = k \<and> startsWith cs ks)"

fun js_includes :: "string \<Rightarrow> string \<Rightarrow> bool" where
  \<comment> \<open>\<^verbatim>\<open>s.includes(k)\<close>\<close>
  "js_includes [] k = (k = [])"
| "js_includes (c # cs) k = (startsWith (c # cs) k \<or> js_includes cs k)"

definition str_of :: "jsval \<Rightarrow> string" where
  \<comment> \<open>the characters of a string value\<close>
  "str_of v = (case v of JStr s \<Rightarrow> s | _ \<Rightarrow> [])"

subsection \<open>Replies\<close>

text \<open>The reply texts, in UTF-8: the bullet is three bytes.\<close>

definition nl :: string where
  "nl = [CHR 0x0A]"

definition bullet :: string where
  "bullet = [CHR 0xE2, CHR 0x80, CHR 0xA2]"

definition quote :: string where
  "quote = [CHR 0x27]"

definition scheme_reply :: string where
  "scheme_reply = ''I can help you find information about government schemes! You can browse all available schemes on the Schemes page. Would you like to search for a specific type of scheme? I can provide information about financial aid, health schemes, educational schemes, and more.''"

definition scholarship_reply :: string where
  "scholarship_reply = ''I can help you find scholarship opportunities! VoxAi provides information about various scholarships available for students. Would you like information about merit-based scholarships, need-based scholarships, or scholarships for specific fields of study?''"

definition job_reply :: string where
  "job_reply = ''I can assist you with job opportunities and career guidance! Would you like information about government job openings, private sector opportunities, or career development resources?''"

definition education_reply :: string where
  "education_reply = ''I can help you find educational resources and skill development courses! Would you like information about online courses, certification programs, or skill development initiatives?''"

definition greeting_reply :: string where
  "greeting_reply = ''Hello! I'' @ quote @ ''m VoxAi, your AI-powered assistant. I can help you find information about government schemes, scholarships, job opportunities, and educational resources. How can I assist you today?''"

definition help_reply :: string where
  "help_reply = ''I'' @ quote @ ''m VoxAi, an AI-powered information assistant. I can help you with:''
     @ nl @ nl @ bullet @ '' Information about government schemes and programs''
     @ nl @ bullet @ '' Scholarship opportunities and financial aid''
     @ nl @ bullet @ '' Job openings and career guidance''
     @ nl @ bullet @ '' Educational resources and skill development courses''
     @ nl @ bullet @ '' Personalized recommendations based on your interests''
     @ nl @ nl @ ''What would you like to know more about?''"

definition default_reply :: string where
  "default_reply = ''Thank you for your query! I'' @ quote @ ''m here to help you with information about government schemes, scholarships, job opportunities, and educational resources. Could you please provide more details about what you'' @ quote @ ''re looking for? For example, you can ask about:''
     @ nl @ nl @ bullet @ '' '' @ quote @ ''Show me government schemes'' @ quote
     @ nl @ bullet @ '' '' @ quote @ ''Find scholarships for students'' @ quote
     @ nl @ bullet @ '' '' @ quote @ ''Job opportunities in [field]'' @ quote
     @ nl @ bullet @ '' '' @ quote @ ''Educational courses for [subject]'' @ quote"

text \<open>The chain of keyword tests on the trimmed, lower-cased message.\<close>

definition chat_reply :: "string \<Rightarrow> string" where
  "chat_reply userMessage =
     (if js_includes userMessage ''scheme'' \<or> js_includes userMessage ''government''
         \<or> js_includes userMessage ''schemes''
      then scheme_reply
      else if js_includes userMessage ''scholarship'' \<or> js_includes userMessage ''scholarships''
         \<or> js_includes userMessage ''financial aid''
      then scholarship_reply
      else if js_includes userMessage ''job'' \<or> js_includes userMessage ''jobs''
         \<or> js_includes userMessage ''career'' \<or> js_includes userMessage ''employment''
      then job_reply
      else if js_includes userMessage ''course'' \<or> js_includes userMessage ''education''
         \<or> js_includes userMessage ''learn'' \<or> js_includes userMessage ''skill''
      then education_reply
      else if js_includes userMessage ''hello'' \<or> js_includes userMessage ''hi''
         \<or> js_includes userMessage ''hey'' \<or> startsWith userMessage ''hii''
      then greeting_reply
      else if js_includes userMessage ''help'' \<or> js_includes userMessage ''what can you do''
         \<or> js_includes userMessage ''capabilities''
      then help_reply
      else default_reply)"

text \<open>Every keyword the chain looks for.\<close>

definition chat_keywords :: "string list" where
  "chat_keywords =
     [''scheme'', ''government'', ''schemes'',
      ''scholarship'', ''scholarships'', ''financial aid'',
      ''job'', ''jobs'', ''career'', ''employment'',
      ''course'', ''education'', ''learn'', ''skill'',
      ''hello'', ''hi'', ''hey'', ''hii'',
      ''help'', ''what can you do'', ''capabilities'']"

subsection \<open>The handler and the route\<close>

text \<open>
  \<^verbatim>\<open>POST /api/chat\<close>, after the guard has stored the caller's identity in
  \<^verbatim>\<open>req.user\<close>. Nothing in the body of the \<^verbatim>\<open>try\<close> throws, so the
  500 response is never sent.
\<close>

definition chat_handler :: "int \<Rightarrow> out \<Rightarrow> (string \<times> jsval) list \<Rightarrow> response" where
  "chat_handler now req_user body =
     (let message = field body ''message''; userId = field body ''userId''
      in if \<not> truthy message \<or> js_typeof message \<noteq> ''string''
            \<or> length (trim (str_of message)) = 0
         then Response 400 (msg ''Message is required and must be a non-empty string'')
         else (let userMessage = toLowerCase (trim (str_of message));
                   user = (if truthy userId then OVal userId else req_user);
                   response = chat_reply userMessage
               in Response 200
                    (OObj [(''message'', OStr response), (''timestamp'', OIso now),
                           (''user'', user)])))"

text \<open>
  \<^verbatim>\<open>router.post("/", auth, handler)\<close>: the guard runs first; \<open>Inl\<close> is its
  rejection, answered with status 401 without running the handler.
\<close>

definition chat_route ::
    "string option \<Rightarrow> int \<Rightarrow> credential option \<Rightarrow> (string \<times> jsval) list \<Rightarrow> guard_failure + response" where
  "chat_route secret now incoming body =
     (case authenticate secret now incoming of
        Inl failure \<Rightarrow> Inl failure
      | Inr uid \<Rightarrow> Inr (chat_handler now (OOid uid) body))"

section \<open>Client session manager\<close>

subsection \<open>Browser state\<close>

text \<open>
  What the session manager reads and writes: \<^verbatim>\<open>localStorage\<close>, the React state of
  \<^verbatim>\<open>AuthProvider\<close> and \<^verbatim>\<open>window.location\<close>. Two logs are kept beside them so
  that effects can be spoken of: every \<^verbatim>\<open>setItem\<close> and \<^verbatim>\<open>removeItem\<close>
  performed, and every request handed to the network, oldest first. A \<^verbatim>\<open>setItem\<close>
  that throws performs nothing and is not in the log. Storage is taken to be accessible:
  reading and removing do not throw.
\<close>

datatype storage_op = SetItem string string | RemoveItem string

record request =
  url :: string
  headers :: "string \<rightharpoonup> string"
  data :: jsval

record client =
  storage :: "string \<rightharpoonup> string"
  journal :: "storage_op list"
  sent :: "request list"
  user :: jsval
  loading :: bool
  error :: jsval
  pathname :: string
  navigation :: "string option"

definition AUTH_TOKEN :: string where
  "AUTH_TOKEN = ''token''"

definition USER_DATA :: string where
  "USER_DATA = ''user''"

definition getItem :: "string \<Rightarrow> client \<Rightarrow> string option" where
  "getItem k c = storage c k"

definition removeItem :: "string \<Rightarrow> client \<Rightarrow> client" where
  "removeItem k c = c\<lparr>storage := (storage c)(k := None), journal := journal c @ [RemoveItem k]\<rparr>"

definition present :: "string option \<Rightarrow> bool" where
  \<comment> \<open>truthiness of what \<^verbatim>\<open>getItem\<close> returns: neither null nor the empty string\<close>
  "present v = (case v of None \<Rightarrow> False | Some s \<Rightarrow> s \<noteq> [])"

definition isAuthenticated :: "client \<Rightarrow> bool" where
  \<comment> \<open>\<^verbatim>\<open>!!user\<close>\<close>
  "isAuthenticated c = truthy (user c)"

subsection \<open>Library functions and the browser\<close>

text \<open>
  \<^verbatim>\<open>jwtDecode\<close> reads a token's payload without checking its signature, or throws;
  of the payload only \<^verbatim>\<open>exp\<close> is used, a number or absent. \<^verbatim>\<open>JSON.parse\<close>
  returns a value or throws, \<^verbatim>\<open>JSON.stringify\<close> returns a string or undefined, and
  \<^verbatim>\<open>setItem\<close> converts the value it is given to a string. The browser decides
  whether a \<^verbatim>\<open>setItem\<close> fits the storage quota, from what is stored and what is to
  be stored, and words the QuotaExceededError it throws otherwise; it also words the
  TypeError thrown when a property of null or undefined is read. All six are parameters.
\<close>

datatype decoded = InvalidTokenError | Decoded "rat option"

datatype js_error = HttpError nat jsval | NoResponse string | Thrown string

record libs =
  jwtDecode :: "string \<Rightarrow> decoded"
  JSON_parse :: "string \<Rightarrow> jsval option"
  JSON_stringify :: "jsval \<Rightarrow> string option"
  toString :: "jsval \<Rightarrow> string"
  quota_error :: "(string \<rightharpoonup> string) \<Rightarrow> string \<Rightarrow> string \<Rightarrow> string option"
  TypeError_message :: "jsval \<Rightarrow> string \<Rightarrow> string"

definition setItem :: "libs \<Rightarrow> string \<Rightarrow> string \<Rightarrow> client \<Rightarrow> js_error + client" where
  "setItem L k v c =
     (case quota_error L (storage c) k v of
        Some message \<Rightarrow> Inl (Thrown message)
      | None \<Rightarrow>
          Inr (c\<lparr>storage := (storage c)(k \<mapsto> v), journal := journal c @ [SetItem k v]\<rparr>))"

subsection \<open>Double-precision division\<close>

text \<open>
  \<^verbatim>\<open>Date.now() / 1000\<close> is a division of doubles: its value is the exact quotient
  rounded to the nearest number with a 53-bit significand, ties to even. \<open>exponent x\<close>
  is the integer part of the binary logarithm of \<open>\<bar>x\<bar>\<close>, found from the bit lengths
  of numerator and denominator; below the exponent -1022 the spacing stays that of the
  subnormal numbers. Overflow to infinity, from 2 to the 1024 on, is not represented; the
  quotient of \<^verbatim>\<open>Date.now()\<close>, at most 8640000000000000 in size, is far from it.
\<close>

definition round_half_even :: "rat \<Rightarrow> int" where
  "round_half_even q =
     (let f = \<lfloor>q\<rfloor>; r = q - of_int f
      in if r < 1 / 2 then f else if 1 / 2 < r then f + 1 else if even f then f else f + 1)"

definition exponent :: "rat \<Rightarrow> int" where
  "exponent x =
     (let (n, d) = quotient_of \<bar>x\<bar>; g = bitlen n - bitlen d
      in if power_int 2 g \<le> \<bar>x\<bar> then g else g - 1)"

definition to_double :: "rat \<Rightarrow> rat" where
  "to_double x =
     (if x = 0 then 0
      else (let u = power_int 2 (max (exponent x) (- 1022) - 52)
            in of_int (round_half_even (x / u)) * u))"

subsection \<open>\<^verbatim>\<open>context/AuthContext.jsx\<close>: start-up\<close>

text \<open>
  \<^verbatim>\<open>initializeAuth\<close>, with \<^verbatim>\<open>Date.now()\<close> as argument. The expiry, a double,
  is compared with the double \<^verbatim>\<open>Date.now() / 1000\<close>; an absent \<^verbatim>\<open>exp\<close>
  compares as not expired. A throw of \<^verbatim>\<open>jwtDecode\<close> or of \<^verbatim>\<open>JSON.parse\<close>
  lands in the inner \<^verbatim>\<open>catch\<close>.
\<close>

definition clearStored :: "client \<Rightarrow> client" where
  \<comment> \<open>the three statements shared by the expiry branch and the inner \<^verbatim>\<open>catch\<close>\<close>
  "clearStored c = (removeItem USER_DATA (removeItem AUTH_TOKEN c))\<lparr>user := JNull\<rparr>"

definition initializeAuth :: "libs \<Rightarrow> int \<Rightarrow> client \<Rightarrow> client" where
  "initializeAuth L now c =
     (let token = getItem AUTH_TOKEN c; userData = getItem USER_DATA c;
          c' = (case (token, userData) of
                  (Some t, Some ud) \<Rightarrow>
                    if t \<noteq> [] \<and> ud \<noteq> [] then
                      (case jwtDecode L t of
                         InvalidTokenError \<Rightarrow> clearStored c
                       | Decoded expires \<Rightarrow>
                           (let currentTime = to_double (of_int now / 1000)
                            in if (case expires of None \<Rightarrow> False | Some e \<Rightarrow> e < currentTime)
                               then clearStored c
                               else (case JSON_parse L ud of
                                       None \<Rightarrow> clearStored c
                                     | Some parsed \<Rightarrow> c\<lparr>user := parsed\<rparr>)))
                    else c
                | _ \<Rightarrow> c)
      in c'\<lparr>loading := False\<rparr>)"

text \<open>
  A page load: the document is new, \<^verbatim>\<open>AuthProvider\<close> mounts with its initial state
  (\<^verbatim>\<open>user\<close> null, \<^verbatim>\<open>loading\<close> true, \<^verbatim>\<open>error\<close> null) and its effect runs
  \<^verbatim>\<open>initializeAuth\<close>. Storage outlives the page.
\<close>

definition page_load :: "libs \<Rightarrow> int \<Rightarrow> string \<Rightarrow> client \<Rightarrow> client" where
  "page_load L now path c =
     initializeAuth L now
       (c\<lparr>user := JNull, loading := True, error := JNull, pathname := path, navigation := None\<rparr>)"

subsection \<open>\<^verbatim>\<open>services/api.js\<close>: the interceptors\<close>

datatype reply = Reply nat jsval | NoReply string

definition get_prop :: "jsval \<Rightarrow> string \<Rightarrow> jsval" where
  \<comment> \<open>\<^verbatim>\<open>v?.k\<close> on parsed JSON, for a key that is no built-in property\<close>
  "get_prop v k = (case v of JObj kvs \<Rightarrow> field kvs k | _ \<Rightarrow> JUndefined)"

definition js_or :: "jsval \<Rightarrow> jsval \<Rightarrow> jsval" where
  "js_or a b = (if truthy a then a else b)"

definition formatErrorMessage :: "js_error \<Rightarrow> jsval" where
  "formatErrorMessage err =
     (case err of
        HttpError st d \<Rightarrow>
          js_or (get_prop d ''msg'') (js_or (get_prop d ''message'') (JStr ''Server error occurred''))
      | NoResponse m \<Rightarrow> JStr ''Network error. Please check your connection.''
      | Thrown m \<Rightarrow> js_or (JStr m) (JStr ''An unexpected error occurred''))"

definition request_interceptor :: "client \<Rightarrow> request \<Rightarrow> request" where
  "request_interceptor c config =
     (case getItem AUTH_TOKEN c of
        Some token \<Rightarrow>
          if token \<noteq> [] then config\<lparr>headers := (headers config)(''x-auth-token'' \<mapsto> token)\<rparr>
          else config
      | None \<Rightarrow> config)"

definition response_error_interceptor :: "js_error \<Rightarrow> client \<Rightarrow> client" where
  \<comment> \<open>the rejection handler; the \<^verbatim>\<open>userMessage\<close> it adds to the error is not read by
      the session manager\<close>
  "response_error_interceptor err c =
     (case err of
        HttpError st d \<Rightarrow>
          if st = 401 then
            (let c1 = removeItem USER_DATA (removeItem AUTH_TOKEN c)
             in if pathname c1 \<noteq> ''/login'' then c1\<lparr>navigation := Some ''/login''\<rparr> else c1)
          else c
      | _ \<Rightarrow> c)"

text \<open>
  A call through the \<^verbatim>\<open>api\<close> instance has two halves, and other operations may run
  between them: \<open>send\<close> passes the request through the request interceptor and hands
  it to the network; \<open>receive\<close> takes what came back. A status from 200 to 299 fulfils
  the call with the response data; any other status, or no response, goes through the
  rejection handler and rejects the call.
\<close>

definition send :: "request \<Rightarrow> client \<Rightarrow> client" where
  "send config c = c\<lparr>sent := sent c @ [request_interceptor c config]\<rparr>"

definition receive :: "reply \<Rightarrow> client \<Rightarrow> (js_error + jsval) \<times> client" where
  "receive r c =
     (case r of
        Reply st d \<Rightarrow>
          if 200 \<le> st \<and> st < 300 then (Inr d, c)
          else (Inl (HttpError st d), response_error_interceptor (HttpError st d) c)
      | NoReply m \<Rightarrow> (Inl (NoResponse m), response_error_interceptor (NoResponse m) c))"

definition json_request :: "string \<Rightarrow> jsval \<Rightarrow> request" where
  "json_request u d =
     \<lparr>url = u, headers = [''Content-Type'' \<mapsto> ''application/json''], data = d\<rparr>"

subsection \<open>\<^verbatim>\<open>context/AuthContext.jsx\<close>: login, register, logout\<close>

text \<open>
  \<^verbatim>\<open>login\<close> up to its \<^verbatim>\<open>await\<close>, and from there on. Inside the
  \<^verbatim>\<open>try\<close>, reading \<^verbatim>\<open>response.token\<close> throws a TypeError when the response
  data is null or undefined, and either \<^verbatim>\<open>setItem\<close> may throw; the \<^verbatim>\<open>catch\<close>
  reports the failure and undoes nothing, so a throw of the second \<^verbatim>\<open>setItem\<close>
  leaves what the first has written.
\<close>

datatype result = Success | Failure jsval

definition login_start :: "string \<Rightarrow> string \<Rightarrow> client \<Rightarrow> client" where
  "login_start email password c =
     send (json_request ''/auth/login'' (JObj [(''email'', JStr email), (''password'', JStr password)]))
       (c\<lparr>error := JNull, loading := True\<rparr>)"

definition fail :: "js_error \<Rightarrow> client \<Rightarrow> result \<times> client" where
  \<comment> \<open>the \<^verbatim>\<open>catch\<close> block of \<^verbatim>\<open>login\<close> and of \<^verbatim>\<open>register\<close>\<close>
  "fail err c =
     (let errorMessage = formatErrorMessage err
      in (Failure errorMessage, c\<lparr>error := errorMessage, loading := False\<rparr>))"

definition login_finish :: "libs \<Rightarrow> reply \<Rightarrow> client \<Rightarrow> result \<times> client" where
  "login_finish L r c =
     (case receive r c of
        (Inl err, c1) \<Rightarrow> fail err c1
      | (Inr response, c1) \<Rightarrow>
          if response = JNull \<or> response = JUndefined
          then fail (Thrown (TypeError_message L response ''token'')) c1
          else (case setItem L AUTH_TOKEN (toString L (get_prop response ''token'')) c1 of
                  Inl err \<Rightarrow> fail err c1
                | Inr c2 \<Rightarrow>
                    (case setItem L USER_DATA
                            (case JSON_stringify L (get_prop response ''user'') of
                               None \<Rightarrow> ''undefined'' | Some text \<Rightarrow> text) c2 of
                       Inl err \<Rightarrow> fail err c2
                     | Inr c3 \<Rightarrow>
                         (Success, c3\<lparr>user := get_prop response ''user'', loading := False\<rparr>))))"

definition register_start :: "string \<Rightarrow> string \<Rightarrow> string \<Rightarrow> jsval \<Rightarrow> client \<Rightarrow> client" where
  "register_start name email password interests c =
     send (json_request ''/auth/register''
             (JObj [(''name'', JStr name), (''email'', JStr email),
                    (''password'', JStr password), (''interests'', interests)]))
       (c\<lparr>error := JNull, loading := True\<rparr>)"

definition register_finish :: "reply \<Rightarrow> client \<Rightarrow> result \<times> client" where
  "register_finish r c =
     (case receive r c of
        (Inl err, c1) \<Rightarrow> fail err c1
      | (Inr response, c1) \<Rightarrow> (Success, c1\<lparr>loading := False\<rparr>))"

definition logout :: "client \<Rightarrow> client" where
  "logout c = (removeItem USER_DATA (removeItem AUTH_TOKEN c))\<lparr>user := JNull, error := JNull\<rparr>"

definition clearError :: "client \<Rightarrow> client" where
  "clearError c = c\<lparr>error := JNull\<rparr>"

subsection \<open>Everything the session manager can do\<close>

text \<open>
  One event for each operation of the provider and each half of a call through the
  \<^verbatim>\<open>api\<close> instance (the scheme and chat calls among them), and one for a page load.
\<close>

datatype event =
    PageLoad int string
  | LoginStart string string
  | LoginFinish reply
  | RegisterStart string string string jsval
  | RegisterFinish reply
  | Logout
  | ClearError
  | ApiSend request
  | ApiReceive reply

fun step :: "libs \<Rightarrow> event \<Rightarrow> client \<Rightarrow> client" where
  "step L (PageLoad now path) c = page_load L now path c"
| "step L (LoginStart email password) c = login_start email password c"
| "step L (LoginFinish r) c = snd (login_finish L r c)"
| "step L (RegisterStart name email password interests) c =
     register_start name email password interests c"
| "step L (RegisterFinish r) c = snd (register_finish r c)"
| "step L Logout c = logout c"
| "step L ClearError c = clearError c"
| "step L (ApiSend config) c = send config c"
| "step L (ApiReceive r) c = snd (receive r c)"

fun run :: "libs \<Rightarrow> event list \<Rightarrow> client \<Rightarrow> client" where
  "run L [] c = c"
| "run L (e # es) c = run L es (step L e c)"



subsection \<open>Sample browsers\<close>

text \<open>
  Library functions that know one token, expiring at 1700604800, and one stored
  projection, in a browser with room in storage; the same in a browser whose quota the
  user projection exceeds; and a browser on the chat page holding both values.
\<close>

definition sample_libs :: libs where
  "sample_libs =
     \<lparr>jwtDecode = (\<lambda>t. if t = ''header.payload.signature'' then Decoded (Some 1700604800)
                         else InvalidTokenError),
      JSON_parse = (\<lambda>text. if text = ''{...}''
                            then Some (JObj [(''id'', JStr ''65a1''), (''name'', JStr ''Alice''),
                                             (''email'', JStr ''a@x.com'')])
                            else None),
      JSON_stringify = (\<lambda>v. if v = JUndefined then None else Some ''{...}''),
      toString = (\<lambda>v. case v of JStr s \<Rightarrow> s | _ \<Rightarrow> ''undefined''),
      quota_error = (\<lambda>stored k v. None),
      TypeError_message = (\<lambda>v k. ''Cannot read properties of ''
                                   @ (if v = JNull then ''null'' else ''undefined''))\<rparr>"


definition sample_client :: client where
  "sample_client =
     \<lparr>storage = [''token'' \<mapsto> ''header.payload.signature'', ''user'' \<mapsto> ''{...}''],
      journal = [], sent = [], user = JNull, loading = True, error = JNull,
      pathname = ''/chat'', navigation = None\<rparr>"


section \<open>Properties of the credential issuer\<close>

subsection \<open>Lookup and insertion\<close>

lemma findOne_append:
  "findOne (st @ [u]) e =
     (case findOne st e of Some v \<Rightarrow> Some v | None \<Rightarrow> if u_email u = e then Some u else None)"
  by (induction st) (auto simp: findOne_def)

lemma findOne_None_filter: "findOne st e = None \<Longrightarrow> filter (\<lambda>u. u_email u = e) st = []"
  by (auto simp: findOne_def find_None_iff filter_empty_conv)

text \<open>A registration either leaves the store as it is, or appends one document.\<close>

lemma register_cases:
  "snd (register st body salt) = st \<and> status (fst (register st body salt)) \<noteq> 200 \<or>
   (\<exists>u. snd (register st body salt) = st @ [u] \<and> findOne st (u_email u) = None
      \<and> fst (register st body salt) = Response 200 (msg ''User registered successfully''))"
  by (auto simp: register_def Let_def User_create_def
      split: option.splits sum.splits jsval.splits if_splits)

lemma register_duplicate:
  "findOne st (field body ''email'') \<noteq> None \<Longrightarrow> register st body salt = (DuplicateIdentity, st)"
  by (auto simp: register_def Let_def split: option.splits)

lemma register_fresh:
  assumes "findOne st (JStr e) = None" "e \<noteq> []"
    "field body ''email'' = JStr e" "field body ''password'' = JStr s"
  shows "register st body salt =
     (Response 200 (msg ''User registered successfully''),
      st @ [\<lparr>u_id = fresh_id st, u_name = field body ''name'', u_email = JStr e,
              u_password = Bcrypt salt s, u_interests = field body ''interests''\<rparr>])"
  using assms by (simp add: register_def Let_def bcrypt_hash_def User_create_def)

lemma register_keeps_found:
  assumes "findOne st e = Some u"
  shows "findOne (snd (register st body salt)) e = Some u"
  using register_cases [of st body salt] assms by (auto simp: findOne_append)

lemma registers_keeps_found:
  "findOne st e = Some u \<Longrightarrow> findOne (registers st rs) e = Some u"
  by (induction rs arbitrary: st) (auto simp: register_keeps_found)

lemma register_ok_store:
  assumes "register st body salt = (resp, st1)" "status resp = 200"
    "field body ''email'' = JStr e" "field body ''password'' = JStr s"
  shows "findOne st1 (JStr e) =
     Some \<lparr>u_id = fresh_id st, u_name = field body ''name'', u_email = JStr e,
           u_password = Bcrypt salt s, u_interests = field body ''interests''\<rparr>"
  using assms
  by (auto simp: register_def Let_def User_create_def bcrypt_hash_def findOne_append
      split: option.splits sum.splits if_splits)

lemma login_found:
  assumes "findOne st (JStr e) = Some u" "plain_of (u_password u) = s" "k \<noteq> []"
    "field body ''email'' = JStr e" "field body ''password'' = JStr s"
  shows "login (Some k) now st body =
     Response 200
       (OObj [(''token'', OJwt (Jwt (u_id u) (now div 1000) (now div 1000 + 7 * 24 * 60 * 60) k)),
              (''user'', OObj [(''id'', OOid (u_id u)), (''name'', OVal (u_name u)),
                               (''email'', OVal (u_email u))])])"
  using assms
  by (cases "u_password u")
    (simp add: login_def Let_def bcrypt_compare_def jwt_sign_def seven_days_def)

subsection \<open>Registering the same email twice\<close>

text \<open>
  Claim C2. When no user has the email yet and the first request carries that non-empty
  email and a string secret, the first registration succeeds and appends one record; a
  second request with the same email, whatever else it carries, is answered with
  DuplicateIdentity and leaves the store exactly as the first left it; one record with
  that email exists afterwards. In any store, a request whose email is already there is
  answered with DuplicateIdentity and the store is returned unchanged.
\<close>

theorem register_twice:
  assumes "findOne st (JStr e) = None" and "e \<noteq> []"
    and "field body1 ''email'' = JStr e" and "field body1 ''password'' = JStr s1"
    and "field body2 ''email'' = JStr e"
  shows "\<exists>st1. register st body1 salt1 = (Response 200 (msg ''User registered successfully''), st1)
          \<and> register st1 body2 salt2 = (DuplicateIdentity, st1)
          \<and> length (filter (\<lambda>u. u_email u = JStr e) st1) = 1
          \<and> length st1 = Suc (length st)
          \<and> (\<forall>st' body salt. findOne st' (field body ''email'') \<noteq> None
                 \<longrightarrow> register st' body salt = (DuplicateIdentity, st'))"
proof -
  let ?u = "\<lparr>u_id = fresh_id st, u_name = field body1 ''name'', u_email = JStr e,
              u_password = Bcrypt salt1 s1, u_interests = field body1 ''interests''\<rparr>"
  have r1: "register st body1 salt1 =
      (Response 200 (msg ''User registered successfully''), st @ [?u])"
    using assms(1-4) by (rule register_fresh)
  have "findOne (st @ [?u]) (field body2 ''email'') \<noteq> None"
    using assms(1,5) by (simp add: findOne_append)
  then have r2: "register (st @ [?u]) body2 salt2 = (DuplicateIdentity, st @ [?u])"
    by (rule register_duplicate)
  have one: "length (filter (\<lambda>u. u_email u = JStr e) (st @ [?u])) = 1"
    using assms(1) by (simp add: findOne_None_filter)
  from r1 r2 one show ?thesis
    by (simp add: register_duplicate)
qed

theorem register_twice_witness:
  "findOne [] (JStr ''a@x.com'') = None \<and> ''a@x.com'' \<noteq> [] \<and>
   (\<exists>st1. register [] [(''name'', JStr ''Alice''), (''email'', JStr ''a@x.com''),
                          (''password'', JStr ''secret1'')] ''salt1''
            = (Response 200 (msg ''User registered successfully''), st1)
        \<and> register st1 [(''name'', JStr ''Alicia''), (''email'', JStr ''a@x.com''),
                          (''password'', JStr ''other'')] ''salt2''
            = (DuplicateIdentity, st1)
        \<and> length (filter (\<lambda>u. u_email u = JStr ''a@x.com'') st1) = 1
        \<and> length st1 = Suc (length ([] :: store)))"
proof -
  have h: "findOne [] (JStr ''a@x.com'') = None"
    by (simp add: findOne_def)
  have "\<exists>st1. register [] [(''name'', JStr ''Alice''), (''email'', JStr ''a@x.com''),
                          (''password'', JStr ''secret1'')] ''salt1''
            = (Response 200 (msg ''User registered successfully''), st1)
        \<and> register st1 [(''name'', JStr ''Alicia''), (''email'', JStr ''a@x.com''),
                          (''password'', JStr ''other'')] ''salt2''
            = (DuplicateIdentity, st1)
        \<and> length (filter (\<lambda>u. u_email u = JStr ''a@x.com'') st1) = 1
        \<and> length st1 = Suc (length ([] :: store))"
    using register_twice [OF h,
        where ?body1.0 = "[(''name'', JStr ''Alice''), (''email'', JStr ''a@x.com''),
                           (''password'', JStr ''secret1'')]"
          and ?s1.0 = "''secret1''"
          and ?body2.0 = "[(''name'', JStr ''Alicia''), (''email'', JStr ''a@x.com''),
                           (''password'', JStr ''other'')]"
          and ?salt1.0 = "''salt1''" and ?salt2.0 = "''salt2''"]
    by (simp add: field_def) blast
  with h show ?thesis by simp
qed

subsection \<open>Login of a registered user\<close>

text \<open>
  Claim C1. Take a registration of email \<open>e\<close> with secret \<open>s\<close> that was answered with
  status 200, and any registrations after it. With the server's secret key set, a login
  with \<open>e\<close> and \<open>s\<close> is answered with status 200 and a body of exactly two members: a
  token signed with the server's key whose subject is the identity of the user stored
  under \<open>e\<close> and whose expiry is its issue time plus seven days, and a projection holding
  exactly that user's identity, name and email, hence not the secret hash.
\<close>

theorem login_registered:
  assumes "register st0 body salt = (resp, st1)" and "status resp = 200"
    and "field body ''email'' = JStr e" and "field body ''password'' = JStr s"
    and "k \<noteq> []"
    and "field creds ''email'' = JStr e" and "field creds ''password'' = JStr s"
  shows "\<exists>u tok. findOne (registers st1 later) (JStr e) = Some u
           \<and> u_email u = JStr e \<and> u_name u = field body ''name'' \<and> u_password u = Bcrypt salt s
           \<and> login (Some k) now (registers st1 later) creds =
               Response 200
                 (OObj [(''token'', OJwt tok),
                        (''user'', OObj [(''id'', OOid (u_id u)), (''name'', OVal (u_name u)),
                                         (''email'', OVal (u_email u))])])
           \<and> jwt_id tok = u_id u \<and> signed_with tok = k
           \<and> jwt_iat tok = now div 1000 \<and> jwt_exp tok = jwt_iat tok + 7 * 24 * 60 * 60"
proof -
  let ?u = "\<lparr>u_id = fresh_id st0, u_name = field body ''name'', u_email = JStr e,
              u_password = Bcrypt salt s, u_interests = field body ''interests''\<rparr>"
  have "findOne st1 (JStr e) = Some ?u"
    using assms(1-4) by (rule register_ok_store)
  then have found: "findOne (registers st1 later) (JStr e) = Some ?u"
    by (rule registers_keeps_found)
  have "login (Some k) now (registers st1 later) creds =
     Response 200
       (OObj [(''token'', OJwt (Jwt (u_id ?u) (now div 1000) (now div 1000 + 7 * 24 * 60 * 60) k)),
              (''user'', OObj [(''id'', OOid (u_id ?u)), (''name'', OVal (u_name ?u)),
                               (''email'', OVal (u_email ?u))])])"
    using found _ assms(5-7) by (rule login_found) simp
  with found show ?thesis by simp
qed

theorem login_registered_witness:
  "register [] [(''name'', JStr ''Alice''), (''email'', JStr ''a@x.com''),
                (''password'', JStr ''secret1'')] ''salt1'' =
      (Response 200 (msg ''User registered successfully''),
       [\<lparr>u_id = 1, u_name = JStr ''Alice'', u_email = JStr ''a@x.com'',
         u_password = Bcrypt ''salt1'' ''secret1'', u_interests = JUndefined\<rparr>])
   \<and> (\<exists>u tok.
       findOne (registers [\<lparr>u_id = 1, u_name = JStr ''Alice'', u_email = JStr ''a@x.com'',
                    u_password = Bcrypt ''salt1'' ''secret1'', u_interests = JUndefined\<rparr>]
                 [([(''name'', JStr ''Bob''), (''email'', JStr ''b@x.com''),
                    (''password'', JStr ''pw'')], ''salt2'')])
              (JStr ''a@x.com'') = Some u
     \<and> u_email u = JStr ''a@x.com'' \<and> u_name u = JStr ''Alice''
     \<and> u_password u = Bcrypt ''salt1'' ''secret1''
     \<and> login (Some ''key'') 1700000000123
          (registers [\<lparr>u_id = 1, u_name = JStr ''Alice'', u_email = JStr ''a@x.com'',
                    u_password = Bcrypt ''salt1'' ''secret1'', u_interests = JUndefined\<rparr>]
                 [([(''name'', JStr ''Bob''), (''email'', JStr ''b@x.com''),
                    (''password'', JStr ''pw'')], ''salt2'')])
          [(''email'', JStr ''a@x.com''), (''password'', JStr ''secret1'')] =
        Response 200
          (OObj [(''token'', OJwt tok),
                 (''user'', OObj [(''id'', OOid (u_id u)), (''name'', OVal (u_name u)),
                                  (''email'', OVal (u_email u))])])
     \<and> jwt_id tok = u_id u \<and> signed_with tok = ''key''
     \<and> jwt_iat tok = 1700000000 \<and> jwt_exp tok = jwt_iat tok + 7 * 24 * 60 * 60)"
proof -
  have r: "register [] [(''name'', JStr ''Alice''), (''email'', JStr ''a@x.com''),
                        (''password'', JStr ''secret1'')] ''salt1'' =
      (Response 200 (msg ''User registered successfully''),
       [\<lparr>u_id = 1, u_name = JStr ''Alice'', u_email = JStr ''a@x.com'',
         u_password = Bcrypt ''salt1'' ''secret1'', u_interests = JUndefined\<rparr>])"
    by (simp add: register_def Let_def findOne_def field_def bcrypt_hash_def User_create_def
        fresh_id_def)
  have k: "''key'' \<noteq> []" by simp
  have f: "field [(''name'', JStr ''Alice''), (''email'', JStr ''a@x.com''),
                  (''password'', JStr ''secret1'')] ''email'' = JStr ''a@x.com''"
      "field [(''name'', JStr ''Alice''), (''email'', JStr ''a@x.com''),
                  (''password'', JStr ''secret1'')] ''password'' = JStr ''secret1''"
      "field [(''email'', JStr ''a@x.com''), (''password'', JStr ''secret1'')] ''email''
         = JStr ''a@x.com''"
      "field [(''email'', JStr ''a@x.com''), (''password'', JStr ''secret1'')] ''password''
         = JStr ''secret1''"
      "field [(''name'', JStr ''Alice''), (''email'', JStr ''a@x.com''),
                  (''password'', JStr ''secret1'')] ''name'' = JStr ''Alice''"
    by (simp_all add: field_def)
  have s200: "status (Response 200 (msg ''User registered successfully'')) = 200" by simp
  note w = login_registered [OF r s200 f(1) f(2) k f(3) f(4), where now = 1700000000123
          and later = "[([(''name'', JStr ''Bob''), (''email'', JStr ''b@x.com''),
                          (''password'', JStr ''pw'')], ''salt2'')]"]
  have "(1700000000123::int) div 1000 = 1700000000" by simp
  with w r f(5) show ?thesis by simp
qed

subsection \<open>Rejections\<close>

lemma login_not_found:
  "findOne st (field body ''email'') = None \<Longrightarrow> login secret now st body = IdentityNotFound"
  by (simp add: login_def Let_def)

lemma login_mismatch:
  "findOne st (field body ''email'') = Some u \<Longrightarrow> field body ''password'' = JStr s \<Longrightarrow>
   bcrypt_compare (JStr s) (u_password u) = Inr False \<Longrightarrow> login secret now st body = InvalidCredential"
  by (simp add: login_def Let_def)

lemma login_token_only_200:
  "status (login secret now st body) \<noteq> 200 \<Longrightarrow> member (json (login secret now st body)) ''token'' = None"
  by (auto simp: login_def Let_def member_def msg_def split: option.splits sum.splits if_splits)

lemma register_reject_keeps:
  "status (fst (register st body salt)) \<noteq> 200 \<Longrightarrow> snd (register st body salt) = st"
  using register_cases [of st body salt] by auto

lemma register_status: "status (fst (register st body salt)) \<in> {200, 400, 500}"
  by (auto simp: register_def Let_def split: option.splits sum.splits)

lemma register_no_secret:
  "\<forall>s. field body ''password'' \<noteq> JStr s \<Longrightarrow> status (fst (register st body salt)) \<noteq> 200"
  by (auto simp: register_def Let_def bcrypt_hash_def split: option.splits sum.splits jsval.splits)

lemma register_no_email:
  "\<forall>e. e \<noteq> [] \<longrightarrow> field body ''email'' \<noteq> JStr e \<Longrightarrow> status (fst (register st body salt)) \<noteq> 200"
  by (auto simp: register_def Let_def User_create_def split: option.splits sum.splits jsval.splits if_splits)

lemma register_ok_reply:
  "status (fst (register st body salt)) = 200 \<Longrightarrow>
   fst (register st body salt) = Response 200 (msg ''User registered successfully'')
   \<and> length (snd (register st body salt)) = Suc (length st)"
  using register_cases [of st body salt] by auto

text \<open>
  Claim C3. A login whose email matches no user is answered with IdentityNotFound; one
  whose email matches a user and whose secret, a string, does not verify against that
  user's stored hash is answered with InvalidCredential. The two messages differ, neither
  body has a token, and no login response other than a 200 has one.
\<close>

theorem login_failures:
  "(findOne st (field body ''email'') = None \<longrightarrow> login secret now st body = IdentityNotFound)
   \<and> (\<forall>u s. findOne st (field body ''email'') = Some u \<and> field body ''password'' = JStr s
          \<and> bcrypt_compare (JStr s) (u_password u) = Inr False
        \<longrightarrow> login secret now st body = InvalidCredential)
   \<and> member (json IdentityNotFound) ''msg'' \<noteq> member (json InvalidCredential) ''msg''
   \<and> member (json IdentityNotFound) ''token'' = None
   \<and> member (json InvalidCredential) ''token'' = None
   \<and> (status (login secret now st body) \<noteq> 200
        \<longrightarrow> member (json (login secret now st body)) ''token'' = None)"
  using login_not_found [of st body secret now] login_mismatch [of st body _ _ secret now]
    login_token_only_200 [of secret now st body]
  by (auto simp: member_def msg_def)

theorem login_failures_witness:
  "login (Some ''key'') 1700000000123
      [\<lparr>u_id = 1, u_name = JStr ''Alice'', u_email = JStr ''a@x.com'',
        u_password = Bcrypt ''salt1'' ''secret1'', u_interests = JUndefined\<rparr>]
      [(''email'', JStr ''nobody@x.com''), (''password'', JStr ''secret1'')] = IdentityNotFound
   \<and> login (Some ''key'') 1700000000123
      [\<lparr>u_id = 1, u_name = JStr ''Alice'', u_email = JStr ''a@x.com'',
        u_password = Bcrypt ''salt1'' ''secret1'', u_interests = JUndefined\<rparr>]
      [(''email'', JStr ''a@x.com''), (''password'', JStr ''wrong'')] = InvalidCredential"
  using login_failures [of
      "[\<lparr>u_id = 1, u_name = JStr ''Alice'', u_email = JStr ''a@x.com'',
        u_password = Bcrypt ''salt1'' ''secret1'', u_interests = JUndefined\<rparr>]"
      "[(''email'', JStr ''nobody@x.com''), (''password'', JStr ''secret1'')]"
      "Some ''key''" 1700000000123]
    login_failures [of
      "[\<lparr>u_id = 1, u_name = JStr ''Alice'', u_email = JStr ''a@x.com'',
        u_password = Bcrypt ''salt1'' ''secret1'', u_interests = JUndefined\<rparr>]"
      "[(''email'', JStr ''a@x.com''), (''password'', JStr ''wrong'')]"
      "Some ''key''" 1700000000123]
  by (simp add: findOne_def field_def bcrypt_compare_def)

subsection \<open>What registration checks\<close>

text \<open>
  Claim C8 as stated fails for the empty secret. The handler tests nothing about the
  secret itself: the empty string is hashed like any other, and the registration succeeds
  and creates a record.
\<close>

theorem register_empty_secret_counterexample:
  "register [] [(''name'', JStr ''Alice''), (''email'', JStr ''a@x.com''),
                (''password'', JStr '''')] ''salt'' =
     (Response 200 (msg ''User registered successfully''),
      [\<lparr>u_id = 1, u_name = JStr ''Alice'', u_email = JStr ''a@x.com'',
        u_password = Bcrypt ''salt'' '''', u_interests = JUndefined\<rparr>])"
  by (simp add: register_def Let_def findOne_def field_def bcrypt_hash_def User_create_def
      fresh_id_def)

text \<open>
  Claim C8, amended. A request whose secret is missing or not a string is rejected (the
  hashing step throws, unless the duplicate check answers first), and so is one whose
  email is missing, empty or not a string (by the store); neither creates a record. Any
  string secret, the empty one included, is accepted with a fresh non-empty email. A
  successful registration answers with the success message alone, without a token, and
  adds one record; every other answer leaves the store unchanged.
\<close>

theorem register_presence:
  "((\<forall>s. field body ''password'' \<noteq> JStr s)
      \<longrightarrow> status (fst (register st body salt)) \<in> {400, 500} \<and> snd (register st body salt) = st)
   \<and> ((\<forall>e. e \<noteq> [] \<longrightarrow> field body ''email'' \<noteq> JStr e)
      \<longrightarrow> status (fst (register st body salt)) \<in> {400, 500} \<and> snd (register st body salt) = st)
   \<and> (findOne st (JStr e) = None \<and> e \<noteq> [] \<and> field body ''email'' = JStr e
        \<and> field body ''password'' = JStr s
      \<longrightarrow> status (fst (register st body salt)) = 200)
   \<and> (status (fst (register st body salt)) = 200
      \<longrightarrow> fst (register st body salt) = Response 200 (msg ''User registered successfully'')
          \<and> member (json (fst (register st body salt))) ''token'' = None
          \<and> length (snd (register st body salt)) = Suc (length st))
   \<and> (status (fst (register st body salt)) \<noteq> 200 \<longrightarrow> snd (register st body salt) = st)"
proof -
  have a: "(\<forall>s. field body ''password'' \<noteq> JStr s)
      \<longrightarrow> status (fst (register st body salt)) \<in> {400, 500} \<and> snd (register st body salt) = st"
    using register_no_secret [of body st salt] register_status [of st body salt]
      register_reject_keeps [of st body salt] by auto
  have b: "(\<forall>e. e \<noteq> [] \<longrightarrow> field body ''email'' \<noteq> JStr e)
      \<longrightarrow> status (fst (register st body salt)) \<in> {400, 500} \<and> snd (register st body salt) = st"
    using register_no_email [of body st salt] register_status [of st body salt]
      register_reject_keeps [of st body salt] by auto
  have c: "findOne st (JStr e) = None \<and> e \<noteq> [] \<and> field body ''email'' = JStr e
        \<and> field body ''password'' = JStr s
      \<longrightarrow> status (fst (register st body salt)) = 200"
    using register_fresh [of st e body s salt] by auto
  have d: "status (fst (register st body salt)) = 200
      \<longrightarrow> fst (register st body salt) = Response 200 (msg ''User registered successfully'')
          \<and> member (json (fst (register st body salt))) ''token'' = None
          \<and> length (snd (register st body salt)) = Suc (length st)"
    using register_ok_reply [of st body salt] by (auto simp: member_def msg_def)
  from a b c d show ?thesis
    using register_reject_keeps [of st body salt] by blast
qed

theorem register_presence_witness:
  "register [] [(''name'', JStr ''Alice''), (''email'', JStr ''a@x.com'')] ''salt'' =
     (Response 500 (msg ''Illegal arguments: undefined, string''), [])
   \<and> status (fst (register [] [(''name'', JStr ''Alice''), (''password'', JStr ''secret1'')] ''salt''))
       \<in> {400, 500}
   \<and> snd (register [] [(''name'', JStr ''Alice''), (''password'', JStr ''secret1'')] ''salt'') = []
   \<and> status (fst (register [] [(''name'', JStr ''Alice''), (''email'', JStr ''a@x.com''),
                (''password'', JStr '''')] ''salt'')) = 200
   \<and> member (json (fst (register [] [(''name'', JStr ''Alice''), (''email'', JStr ''a@x.com''),
                (''password'', JStr '''')] ''salt''))) ''token'' = None"
proof -
  have 1: "register [] [(''name'', JStr ''Alice''), (''email'', JStr ''a@x.com'')] ''salt'' =
     (Response 500 (msg ''Illegal arguments: undefined, string''), [])"
    by (simp add: register_def Let_def findOne_def field_def bcrypt_hash_def)
  have 2: "\<forall>e. e \<noteq> [] \<longrightarrow>
      field [(''name'', JStr ''Alice''), (''password'', JStr ''secret1'')] ''email'' \<noteq> JStr e"
    by (simp add: field_def)
  have 3: "findOne [] (JStr ''a@x.com'') = None \<and> ''a@x.com'' \<noteq> []
      \<and> field [(''name'', JStr ''Alice''), (''email'', JStr ''a@x.com''),
                (''password'', JStr '''')] ''email'' = JStr ''a@x.com''
      \<and> field [(''name'', JStr ''Alice''), (''email'', JStr ''a@x.com''),
                (''password'', JStr '''')] ''password'' = JStr ''''"
    by (simp add: findOne_def field_def)
  note p2 = register_presence [of "[(''name'', JStr ''Alice''), (''password'', JStr ''secret1'')]"
      "[]" "''salt''"]
  note p3 = register_presence [of "[(''name'', JStr ''Alice''), (''email'', JStr ''a@x.com''),
                (''password'', JStr '''')]" "[]" "''salt''" "''a@x.com''" "''''"]
  from 1 2 3 p2 p3 show ?thesis by blast
qed

section \<open>Properties of the chat endpoint\<close>

lemma lower_ws: "isWhiteSpace (lower_char c) = isWhiteSpace c"
proof (cases c)
  case (Char b0 b1 b2 b3 b4 b5 b6 b7)
  then show ?thesis
    by (cases b0; cases b1; cases b2; cases b3; cases b4; cases b5; cases b6; cases b7)
      (simp_all add: isWhiteSpace_def)
qed

lemma trim_lower: "trim (toLowerCase s) = toLowerCase (trim s)"
proof -
  have "dropWhile isWhiteSpace (map lower_char xs) = map lower_char (dropWhile isWhiteSpace xs)"
    for xs
    by (induction xs) (simp_all add: lower_ws)
  then show ?thesis
    by (simp add: trim_def toLowerCase_def rev_map)
qed

lemma replies_nonempty:
  "scheme_reply \<noteq> []" "scholarship_reply \<noteq> []" "job_reply \<noteq> []" "education_reply \<noteq> []"
  "greeting_reply \<noteq> []" "help_reply \<noteq> []" "default_reply \<noteq> []"
  by (simp_all add: scheme_reply_def scholarship_reply_def job_reply_def education_reply_def
      greeting_reply_def help_reply_def default_reply_def)

lemma chat_reply_nonempty: "chat_reply m \<noteq> []"
  by (simp add: chat_reply_def replies_nonempty)

lemma default_differs:
  "scheme_reply \<noteq> default_reply" "scholarship_reply \<noteq> default_reply" "job_reply \<noteq> default_reply"
  "education_reply \<noteq> default_reply" "greeting_reply \<noteq> default_reply" "help_reply \<noteq> default_reply"
  by (simp_all add: scheme_reply_def scholarship_reply_def job_reply_def education_reply_def
      greeting_reply_def help_reply_def default_reply_def)

lemma startsWith_includes: "startsWith s k \<Longrightarrow> js_includes s k"
  by (cases s) (auto elim: startsWith.elims)

lemma startsWith_shorter: "startsWith s (k @ j) \<Longrightarrow> startsWith s k"
  by (induction s k rule: startsWith.induct) auto

lemma includes_shorter: "js_includes s (k @ j) \<Longrightarrow> js_includes s k"
  by (induction s) (auto dest: startsWith_shorter)

lemma includes_hii: "js_includes s ''hii'' \<Longrightarrow> js_includes s ''hi''"
  using includes_shorter [of s "''hi''" "''i''"] by simp

lemma chat_reply_default:
  "chat_reply m = default_reply \<longleftrightarrow> (\<forall>k \<in> set chat_keywords. \<not> js_includes m k)"
  using startsWith_includes [of m "''hii''"] includes_hii [of m]
  by (auto simp: chat_reply_def chat_keywords_def default_differs)

lemma chat_handler_ok:
  assumes "field body ''message'' = JStr m" "trim m \<noteq> []"
  shows "chat_handler now req_user body =
     Response 200
       (OObj [(''message'', OStr (chat_reply (toLowerCase (trim m)))), (''timestamp'', OIso now),
              (''user'', if truthy (field body ''userId'') then OVal (field body ''userId'')
                         else req_user)])"
proof -
  have "m \<noteq> []" using assms(2) by (auto simp: trim_def)
  with assms show ?thesis
    by (simp add: chat_handler_def Let_def str_of_def)
qed

lemma chat_handler_bad:
  assumes "(\<forall>m. field body ''message'' \<noteq> JStr m) \<or> (\<exists>m. field body ''message'' = JStr m \<and> trim m = [])"
  shows "chat_handler now req_user body =
     Response 400 (msg ''Message is required and must be a non-empty string'')"
  using assms
  by (cases "field body ''message''") (auto simp: chat_handler_def Let_def str_of_def)


lemma chat_handler_case:
  assumes "field body ''message'' = JStr m" "field body' ''message'' = JStr m'"
    and "toLowerCase m = toLowerCase m'" and "field body' ''userId'' = field body ''userId''"
  shows "chat_handler now req_user body' = chat_handler now req_user body"
proof -
  have same: "toLowerCase (trim m) = toLowerCase (trim m')"
    using assms(3) by (simp add: trim_lower [symmetric])
  then have len: "length (trim m) = length (trim m')"
    by (metis length_map toLowerCase_def)
  from len have empty: "trim m = [] \<longleftrightarrow> trim m' = []"
    by (metis length_0_conv)
  have "m = [] \<longleftrightarrow> m' = []"
    using assms(3) by (auto simp: toLowerCase_def)
  with assms(1,2,4) same empty show ?thesis
    by (simp add: chat_handler_def Let_def str_of_def)
qed

lemma authenticate_ok_route:
  "authenticate secret now incoming = Inr uid \<Longrightarrow>
   chat_route secret now incoming body = Inr (chat_handler now (OOid uid) body)"
  by (simp add: chat_route_def)

text \<open>
  Claim C9. For a request that passes the guard: a message that is a string and non-empty
  after trimming is answered with status 200 and a non-empty reply, the reply chosen for
  the trimmed and lower-cased message; two requests whose messages differ only in letter
  case are answered alike; a message containing none of the keywords gets the default
  reply; and a message that is missing, not a string, or empty after trimming is answered
  with status 400.
\<close>

theorem chat_answers:
  assumes "authenticate secret now incoming = Inr uid"
  shows "(\<forall>m. field body ''message'' = JStr m \<and> trim m \<noteq> [] \<longrightarrow>
            (\<exists>r. chat_route secret now incoming body =
                    Inr (Response 200
                          (OObj [(''message'', OStr r), (''timestamp'', OIso now),
                                 (''user'', if truthy (field body ''userId'')
                                            then OVal (field body ''userId'') else OOid uid)]))
                \<and> r \<noteq> [] \<and> r = chat_reply (toLowerCase (trim m))))
       \<and> (\<forall>m m' body'. field body ''message'' = JStr m \<and> field body' ''message'' = JStr m'
              \<and> toLowerCase m = toLowerCase m' \<and> field body' ''userId'' = field body ''userId''
            \<longrightarrow> chat_route secret now incoming body' = chat_route secret now incoming body)
       \<and> (\<forall>um. (\<forall>k \<in> set chat_keywords. \<not> js_includes um k) \<longrightarrow> chat_reply um = default_reply)
       \<and> ((\<forall>m. field body ''message'' \<noteq> JStr m)
             \<or> (\<exists>m. field body ''message'' = JStr m \<and> trim m = [])
            \<longrightarrow> chat_route secret now incoming body =
                  Inr (Response 400 (msg ''Message is required and must be a non-empty string'')))"
proof -
  note route = authenticate_ok_route [OF assms]
  have a: "\<forall>m. field body ''message'' = JStr m \<and> trim m \<noteq> [] \<longrightarrow>
            (\<exists>r. chat_route secret now incoming body =
                    Inr (Response 200
                          (OObj [(''message'', OStr r), (''timestamp'', OIso now),
                                 (''user'', if truthy (field body ''userId'')
                                            then OVal (field body ''userId'') else OOid uid)]))
                \<and> r \<noteq> [] \<and> r = chat_reply (toLowerCase (trim m)))"
    by (simp add: route chat_handler_ok chat_reply_nonempty)
  have b: "\<forall>m m' body'. field body ''message'' = JStr m \<and> field body' ''message'' = JStr m'
              \<and> toLowerCase m = toLowerCase m' \<and> field body' ''userId'' = field body ''userId''
            \<longrightarrow> chat_route secret now incoming body' = chat_route secret now incoming body"
  proof (intro allI impI)
    fix m m' body'
    assume h: "field body ''message'' = JStr m \<and> field body' ''message'' = JStr m'
              \<and> toLowerCase m = toLowerCase m' \<and> field body' ''userId'' = field body ''userId''"
    then have "chat_handler now (OOid uid) body' = chat_handler now (OOid uid) body"
      by (intro chat_handler_case [of body m body' m']) simp_all
    then show "chat_route secret now incoming body' = chat_route secret now incoming body"
      by (simp add: route authenticate_ok_route [OF assms])
  qed
  have c: "\<forall>um. (\<forall>k \<in> set chat_keywords. \<not> js_includes um k) \<longrightarrow> chat_reply um = default_reply"
    by (simp add: chat_reply_default)
  have d: "(\<forall>m. field body ''message'' \<noteq> JStr m)
             \<or> (\<exists>m. field body ''message'' = JStr m \<and> trim m = [])
            \<longrightarrow> chat_route secret now incoming body =
                  Inr (Response 400 (msg ''Message is required and must be a non-empty string''))"
    using chat_handler_bad [of body now "OOid uid"] by (simp add: route)
  from a b c d show ?thesis by blast
qed

theorem chat_answers_witness:
  "authenticate (Some ''key'') 1700000000123
      (Some (Token (Jwt 1 1700000000 1700604800 ''key''))) = Inr 1
   \<and> chat_route (Some ''key'') 1700000000123 (Some (Token (Jwt 1 1700000000 1700604800 ''key'')))
        [(''message'', JStr ''  Any JOBS near me?  '')] =
      Inr (Response 200 (OObj [(''message'', OStr job_reply), (''timestamp'', OIso 1700000000123),
                               (''user'', OOid 1)]))
   \<and> chat_route (Some ''key'') 1700000000123 (Some (Token (Jwt 1 1700000000 1700604800 ''key'')))
        [(''message'', JStr ''  any jobs near me?  '')] =
      chat_route (Some ''key'') 1700000000123 (Some (Token (Jwt 1 1700000000 1700604800 ''key'')))
        [(''message'', JStr ''  Any JOBS near me?  '')]
   \<and> chat_route (Some ''key'') 1700000000123 (Some (Token (Jwt 1 1700000000 1700604800 ''key'')))
        [(''message'', JStr ''   '')] =
      Inr (Response 400 (msg ''Message is required and must be a non-empty string''))
   \<and> chat_route (Some ''key'') 1700000000123 (Some (Token (Jwt 1 1700000000 1700604800 ''key'')))
        [(''message'', JNum 42)] =
      Inr (Response 400 (msg ''Message is required and must be a non-empty string''))"
proof -
  have au: "authenticate (Some ''key'') 1700000000123
      (Some (Token (Jwt 1 1700000000 1700604800 ''key''))) = Inr 1"
    by (simp add: authenticate_def)
  have t: "trim ''  Any JOBS near me?  '' = ''Any JOBS near me?''" "trim ''   '' = []"
    by (simp_all add: trim_def isWhiteSpace_def)
  have l: "toLowerCase ''  any jobs near me?  '' = toLowerCase ''  Any JOBS near me?  ''"
    "toLowerCase ''Any JOBS near me?'' = ''any jobs near me?''"
    by (simp_all add: toLowerCase_def)
  have r: "chat_reply ''any jobs near me?'' = job_reply"
    by (simp add: chat_reply_def)
  let ?tok = "Some (Token (Jwt 1 1700000000 1700604800 ''key''))"
  have f: "field [(''message'', JStr ''  Any JOBS near me?  '')] ''message''
             = JStr ''  Any JOBS near me?  ''"
      "field [(''message'', JStr ''  any jobs near me?  '')] ''message''
             = JStr ''  any jobs near me?  ''"
      "field [(''message'', JStr ''   '')] ''message'' = JStr ''   ''"
      "\<forall>m. field [(''message'', JNum 42)] ''message'' \<noteq> JStr m"
      "field [(''message'', JStr ''  any jobs near me?  '')] ''userId''
         = field [(''message'', JStr ''  Any JOBS near me?  '')] ''userId''"
      "\<not> truthy (field [(''message'', JStr ''  Any JOBS near me?  '')] ''userId'')"
    by (simp_all add: field_def)
  have ne: "trim ''  Any JOBS near me?  '' \<noteq> []"
    by (simp add: t)
  from chat_answers [OF au, THEN conjunct1, rule_format, OF conjI, OF f(1) ne]
  have 1: "chat_route (Some ''key'') 1700000000123 ?tok
        [(''message'', JStr ''  Any JOBS near me?  '')] =
      Inr (Response 200 (OObj [(''message'', OStr job_reply), (''timestamp'', OIso 1700000000123),
                               (''user'', OOid 1)]))"
    by (simp only: t l r f(6) if_False) blast
  have l': "toLowerCase ''  Any JOBS near me?  '' = toLowerCase ''  any jobs near me?  ''"
    by (simp add: toLowerCase_def)
  have 2: "chat_route (Some ''key'') 1700000000123 ?tok
        [(''message'', JStr ''  any jobs near me?  '')] =
      chat_route (Some ''key'') 1700000000123 ?tok
        [(''message'', JStr ''  Any JOBS near me?  '')]"
    by (rule chat_answers [OF au, THEN conjunct2, THEN conjunct1, rule_format])
      (intro conjI, rule f(1), rule f(2), rule l', rule f(5))
  from chat_answers [OF au, THEN conjunct2, THEN conjunct2, THEN conjunct2,
      of "[(''message'', JStr ''   '')]"] f(3) t(2)
  have 3: "chat_route (Some ''key'') 1700000000123 ?tok [(''message'', JStr ''   '')] =
      Inr (Response 400 (msg ''Message is required and must be a non-empty string''))"
    by blast
  from chat_answers [OF au, THEN conjunct2, THEN conjunct2, THEN conjunct2,
      of "[(''message'', JNum 42)]"] f(4)
  have 4: "chat_route (Some ''key'') 1700000000123 ?tok [(''message'', JNum 42)] =
      Inr (Response 400 (msg ''Message is required and must be a non-empty string''))"
    by blast
  from au 1 2 3 4 show ?thesis by blast
qed

section \<open>Properties of the session guard\<close>

text \<open>
  Claim C4. On the protected chat route, a request without a token is rejected as
  MissingToken; a token whose signature was made with another secret than the server's is
  rejected as InvalidToken, and so not as ExpiredToken, whatever its expiry; a token with
  the server's signature whose expiry is past is rejected as ExpiredToken. The same holds
  of the tokens the login route issues: one signed with another secret is InvalidToken,
  one of this server is ExpiredToken once seven days have passed since it was issued.
\<close>

theorem guard_rejections:
  "chat_route secret now None body = Inl MissingToken
   \<and> (secret \<noteq> Some (signed_with t)
        \<longrightarrow> chat_route secret now (Some (Token t)) body = Inl InvalidToken
          \<and> chat_route secret now (Some (Token t)) body \<noteq> Inl ExpiredToken)
   \<and> (secret = Some (signed_with t) \<and> signed_with t \<noteq> [] \<and> jwt_exp t * 1000 < now
        \<longrightarrow> chat_route secret now (Some (Token t)) body = Inl ExpiredToken)
   \<and> (jwt_sign uid (Some k) seven_days issued = Inr t \<and> secret \<noteq> Some k
        \<longrightarrow> chat_route secret now (Some (Token t)) body = Inl InvalidToken)
   \<and> (jwt_sign uid secret seven_days issued = Inr t
          \<and> (issued div 1000 + seven_days) * 1000 < now
        \<longrightarrow> chat_route secret now (Some (Token t)) body = Inl ExpiredToken)"
proof -
  have a: "chat_route secret now None body = Inl MissingToken"
    by (simp add: chat_route_def authenticate_def)
  have b: "secret \<noteq> Some (signed_with t)
        \<longrightarrow> chat_route secret now (Some (Token t)) body = Inl InvalidToken
          \<and> chat_route secret now (Some (Token t)) body \<noteq> Inl ExpiredToken"
    by (simp add: chat_route_def authenticate_def)
  have c: "secret = Some (signed_with t) \<and> signed_with t \<noteq> [] \<and> jwt_exp t * 1000 < now
        \<longrightarrow> chat_route secret now (Some (Token t)) body = Inl ExpiredToken"
    by (simp add: chat_route_def authenticate_def)
  have d: "jwt_sign uid (Some k) seven_days issued = Inr t \<and> secret \<noteq> Some k
        \<longrightarrow> chat_route secret now (Some (Token t)) body = Inl InvalidToken"
    by (auto simp: chat_route_def authenticate_def jwt_sign_def Let_def split: if_splits)
  have e: "jwt_sign uid secret seven_days issued = Inr t
          \<and> (issued div 1000 + seven_days) * 1000 < now
        \<longrightarrow> chat_route secret now (Some (Token t)) body = Inl ExpiredToken"
    by (cases secret; cases t)
      (auto simp: chat_route_def authenticate_def jwt_sign_def Let_def split: if_splits)
  from a b c d e show ?thesis by blast
qed

theorem guard_rejections_witness:
  "chat_route (Some ''key'') 1800000000000
      (Some (Token (Jwt 1 1700000000 1700604800 ''other''))) [(''message'', JStr ''hello'')]
     = Inl InvalidToken
   \<and> chat_route (Some ''key'') 1800000000000
      (Some (Token (Jwt 1 1700000000 1700604800 ''key''))) [(''message'', JStr ''hello'')]
     = Inl ExpiredToken
   \<and> jwt_sign 1 (Some ''key'') seven_days 1700000000123 = Inr (Jwt 1 1700000000 1700604800 ''key'')"
proof -
  have s: "jwt_sign 1 (Some ''key'') seven_days 1700000000123
      = Inr (Jwt 1 1700000000 1700604800 ''key'')"
    by (simp add: jwt_sign_def seven_days_def)
  note a = guard_rejections [of "Some ''key''" 1800000000000 "[(''message'', JStr ''hello'')]"
      "Jwt 1 1700000000 1700604800 ''other''"]
  note b = guard_rejections [of "Some ''key''" 1800000000000 "[(''message'', JStr ''hello'')]"
      "Jwt 1 1700000000 1700604800 ''key''" 1 "''key''" 1700000000123]
  from a b s show ?thesis by (simp add: seven_days_def)
qed

section \<open>Properties of the client session manager\<close>

subsection \<open>The clock in seconds\<close>

lemma round_half_even_error: "\<bar>of_int (round_half_even q) - q\<bar> \<le> 1 / 2"
proof -
  have "of_int \<lfloor>q\<rfloor> \<le> q" "q < of_int \<lfloor>q\<rfloor> + 1" by linarith+
  then show ?thesis
    by (auto simp: round_half_even_def Let_def)
qed

lemma round_half_even_int [simp]: "round_half_even (of_int k) = k"
  by (simp add: round_half_even_def)

lemma exponent_bounds:
  assumes "x \<noteq> 0"
  shows "power_int 2 (exponent x) \<le> \<bar>x\<bar>" "\<bar>x\<bar> < power_int 2 (exponent x + 1)"
proof -
  obtain n d where q: "quotient_of \<bar>x\<bar> = (n, d)" by (cases "quotient_of \<bar>x\<bar>")
  then have d: "0 < d" and x: "\<bar>x\<bar> = of_int n / of_int d"
    by (auto dest: quotient_of_denom_pos quotient_of_div)
  have "0 < \<bar>x\<bar>" using assms by simp
  with x d have n: "0 < n"
    by (simp add: zero_less_divide_iff)
  define a b where "a = bitlen n" and "b = bitlen d"
  have a1: "1 \<le> a" and b1: "1 \<le> b"
    using n d by (auto simp: a_def b_def bitlen_alt_def)
  from bitlen_bounds [OF n] have "2 ^ nat (a - 1) \<le> n" "n < 2 ^ nat a"
    by (simp_all add: a_def)
  then have nb: "(2::rat) ^ nat (a - 1) \<le> of_int n" "of_int n < (2::rat) ^ nat a"
    by (metis of_int_le_iff of_int_numeral of_int_power, metis of_int_less_iff of_int_numeral of_int_power)
  from bitlen_bounds [OF d] have "2 ^ nat (b - 1) \<le> d" "d < 2 ^ nat b"
    by (simp_all add: b_def)
  then have db: "(2::rat) ^ nat (b - 1) \<le> of_int d" "of_int d < (2::rat) ^ nat b"
    by (metis of_int_le_iff of_int_numeral of_int_power, metis of_int_less_iff of_int_numeral of_int_power)
  have pa: "(2::rat) ^ nat a = power_int 2 a" "(2::rat) ^ nat (a - 1) = power_int 2 (a - 1)"
    and pb: "(2::rat) ^ nat b = power_int 2 b" "(2::rat) ^ nat (b - 1) = power_int 2 (b - 1)"
    using a1 b1 by (simp_all add: power_int_nonneg_exp)
  have dpos: "(0::rat) < of_int d" using d by simp
  have up: "\<bar>x\<bar> < power_int 2 (a - b + 1)"
  proof -
    have "of_int n < power_int 2 (a - b + 1) * (of_int d :: rat)"
    proof -
      have "power_int 2 (a - b + 1) * power_int 2 (b - 1) = (power_int 2 a :: rat)"
        by (simp add: power_int_add [symmetric])
      moreover have "power_int 2 (a - b + 1) * power_int 2 (b - 1)
          \<le> power_int 2 (a - b + 1) * (of_int d :: rat)"
        using db(1) pb(2) by (simp add: mult_left_mono)
      ultimately show ?thesis using nb(2) pa(1) by linarith
    qed
    then show ?thesis unfolding x using dpos by (simp add: divide_less_eq)
  qed
  have lo: "power_int 2 (a - b - 1) < \<bar>x\<bar>"
  proof -
    have "power_int 2 (a - b - 1) * (of_int d :: rat) < of_int n"
    proof -
      have "power_int 2 (a - b - 1) * power_int 2 b = (power_int 2 (a - 1) :: rat)"
        by (simp add: power_int_add [symmetric])
      moreover have "power_int 2 (a - b - 1) * (of_int d :: rat)
          < power_int 2 (a - b - 1) * power_int 2 b"
        using db(2) pb(1) by (simp add: mult_strict_left_mono)
      ultimately show ?thesis using nb(1) pa(2) by linarith
    qed
    then show ?thesis unfolding x using dpos by (simp add: less_divide_eq)
  qed
  have e: "exponent x = (if power_int 2 (a - b) \<le> \<bar>x\<bar> then a - b else a - b - 1)"
    by (simp add: exponent_def q a_def b_def Let_def)
  show "power_int 2 (exponent x) \<le> \<bar>x\<bar>"
    using lo by (simp add: e)
  show "\<bar>x\<bar> < power_int 2 (exponent x + 1)"
    using up by (auto simp: e not_le)
qed

lemma to_double_error:
  assumes "x \<noteq> 0"
  shows "\<bar>to_double x - x\<bar> \<le> power_int 2 (max (exponent x) (- 1022) - 53)"
proof -
  define u :: rat where "u = power_int 2 (max (exponent x) (- 1022) - 52)"
  define r :: rat where "r = of_int (round_half_even (x / u))"
  have u: "0 < u" by (simp add: u_def)
  have "\<bar>r - x / u\<bar> \<le> 1 / 2"
    unfolding r_def by (rule round_half_even_error)
  then have "\<bar>r - x / u\<bar> * u \<le> 1 / 2 * u"
    using u by (simp add: mult_right_mono)
  moreover have "\<bar>r - x / u\<bar> * u = \<bar>(r - x / u) * u\<bar>"
    using u by (simp add: abs_mult)
  moreover have "(r - x / u) * u = r * u - x"
    using u by (simp add: left_diff_distrib)
  ultimately have a: "\<bar>r * u - x\<bar> \<le> 1 / 2 * u" by simp
  have step: "power_int (2::rat) (j + 1) = power_int 2 j * 2" for j
    by (rule power_int_add_1) simp
  have "max (exponent x) (- 1022) - 52 = (max (exponent x) (- 1022) - 53) + 1"
    by simp
  then have "u = power_int 2 (max (exponent x) (- 1022) - 53) * 2"
    unfolding u_def by (simp only: step)
  then have b: "1 / 2 * u = power_int 2 (max (exponent x) (- 1022) - 53)"
    by simp
  have c: "to_double x = r * u"
    using assms by (simp add: to_double_def Let_def r_def u_def)
  from a b c show ?thesis by simp
qed

lemma exponent_less:
  assumes "x \<noteq> 0" "\<bar>x\<bar> < power_int 2 m"
  shows "exponent x < m"
proof (rule ccontr)
  assume "\<not> exponent x < m"
  then have "power_int (2::rat) m \<le> power_int 2 (exponent x)"
    by (simp add: power_int_increasing)
  with exponent_bounds(1) [OF assms(1)] assms(2) show False by linarith
qed

lemma exponent_ge:
  assumes "x \<noteq> 0" "power_int 2 m \<le> \<bar>x\<bar>"
  shows "m \<le> exponent x"
proof (rule ccontr)
  assume "\<not> m \<le> exponent x"
  then have "power_int (2::rat) (exponent x + 1) \<le> power_int 2 m"
    by (simp add: power_int_increasing)
  with exponent_bounds(2) [OF assms(1)] assms(2) show False by linarith
qed

lemma to_double_near:
  assumes "\<bar>x\<bar> < 2 ^ 43"
  shows "\<bar>to_double x - x\<bar> \<le> 1 / 2048"
proof (cases "x = 0")
  case True
  then show ?thesis by (simp add: to_double_def)
next
  case False
  have "\<bar>x\<bar> < power_int 2 43" using assms by simp
  with False have "exponent x < 43" by (rule exponent_less)
  then have "max (exponent x) (- 1022) - 53 \<le> - 11" by simp
  then have "power_int (2::rat) (max (exponent x) (- 1022) - 53) \<le> power_int 2 (- 11)"
    by (rule power_int_increasing) simp
  also have "power_int (2::rat) (- 11) = 1 / 2048"
    by (simp add: power_int_minus_divide)
  finally show ?thesis
    using to_double_error [OF False] by linarith
qed

lemma to_double_int:
  assumes "\<bar>k\<bar> < 2 ^ 53"
  shows "to_double (of_int k) = of_int k"
proof (cases "k = 0")
  case True
  then show ?thesis by (simp add: to_double_def)
next
  case False
  define x :: rat where "x = of_int k"
  have x0: "x \<noteq> 0" using False by (simp add: x_def)
  have "\<bar>x\<bar> < power_int 2 53"
  proof -
    have "(of_int \<bar>k\<bar> :: rat) < of_int (2 ^ 53)" using assms by (simp only: of_int_less_iff)
    then show ?thesis by (simp add: x_def)
  qed
  with x0 have hi: "exponent x < 53" by (rule exponent_less)
  have "power_int 2 0 \<le> \<bar>x\<bar>"
  proof -
    have "1 \<le> \<bar>k\<bar>" using False by simp
    then have "(of_int 1 :: rat) \<le> of_int \<bar>k\<bar>" by (simp only: of_int_le_iff)
    then show ?thesis by (simp add: x_def)
  qed
  with x0 have lo: "0 \<le> exponent x" by (rule exponent_ge)
  define m where "m = nat (52 - exponent x)"
  have e: "max (exponent x) (- 1022) - 52 = - int m"
    using lo hi by (simp add: m_def)
  have u: "power_int (2::rat) (max (exponent x) (- 1022) - 52) = 1 / 2 ^ m"
    by (simp add: e power_int_minus_divide)
  have "x / (1 / 2 ^ m) = of_int (k * 2 ^ m)"
    by (simp add: x_def)
  then have "round_half_even (x / (1 / 2 ^ m)) = k * 2 ^ m"
    by (simp only: round_half_even_int)
  then show ?thesis
    using x0 by (simp add: to_double_def u Let_def x_def [symmetric])
qed

lemma now_whole_seconds:
  assumes "\<bar>now\<bar> \<le> 8640000000000000"
  shows "of_int k < to_double (of_int now / 1000) \<longleftrightarrow> k * 1000 < now"
proof -
  define x :: rat where "x = of_int now / 1000"
  have "\<bar>of_int now :: rat\<bar> \<le> 8640000000000000"
  proof -
    have "(of_int \<bar>now\<bar> :: rat) \<le> of_int 8640000000000000"
      using assms by (simp only: of_int_le_iff)
    then show ?thesis by simp
  qed
  then have small: "\<bar>x\<bar> < 2 ^ 43" by (simp add: x_def)
  then have near: "\<bar>to_double x - x\<bar> \<le> 1 / 2048" by (rule to_double_near)
  consider "k * 1000 < now" | "now < k * 1000" | "now = k * 1000" by linarith
  then show ?thesis
  proof cases
    case 1
    then have "k * 1000 + 1 \<le> now" by simp
    then have "(of_int (k * 1000 + 1) :: rat) \<le> of_int now" by (simp only: of_int_le_iff)
    then have "of_int k + 1 / 1000 \<le> x" by (simp add: x_def)
    with near have "of_int k < to_double x" by linarith
    with 1 show ?thesis by (simp add: x_def)
  next
    case 2
    then have "now + 1 \<le> k * 1000" by simp
    then have "(of_int (now + 1) :: rat) \<le> of_int (k * 1000)" by (simp only: of_int_le_iff)
    then have "x \<le> of_int k - 1 / 1000" by (simp add: x_def)
    with near have "\<not> of_int k < to_double x" by linarith
    with 2 show ?thesis by (simp add: x_def)
  next
    case 3
    then have xk: "x = of_int k" by (simp add: x_def)
    have "\<bar>k\<bar> < 2 ^ 53" using assms 3 by simp
    then have "to_double (of_int k) = (of_int k :: rat)" by (rule to_double_int)
    with 3 xk show ?thesis by (simp add: x_def)
  qed
qed

text \<open>
  At an expiry that is no whole number of seconds the rounding can show. The clock
  1700000000001 ms is later than the expiry 3565158400002097 / 2097152 s, but its quotient
  by 1000 rounds to that very number, and the comparison finds the token not expired.
\<close>

lemma to_double_example: "to_double (1700000000001 / 1000) = 3565158400002097 / 2097152"
  by code_simp

lemma fractional_expiry_not_detected:
  "(3565158400002097 / 2097152 :: rat) < 1700000000001 / 1000
   \<and> \<not> 3565158400002097 / 2097152 < to_double (of_int 1700000000001 / 1000)"
  using to_double_example by simp

subsection \<open>Start-up\<close>

lemma keys_differ: "AUTH_TOKEN \<noteq> USER_DATA"
  by (simp add: AUTH_TOKEN_def USER_DATA_def)

lemma clearStored_simps:
  "storage (clearStored c) = (storage c)(AUTH_TOKEN := None, USER_DATA := None)"
  "journal (clearStored c) = journal c @ [RemoveItem AUTH_TOKEN, RemoveItem USER_DATA]"
  "sent (clearStored c) = sent c" "user (clearStored c) = JNull"
  "pathname (clearStored c) = pathname c" "navigation (clearStored c) = navigation c"
  by (simp_all add: clearStored_def removeItem_def)

lemma initializeAuth_absent:
  assumes "\<not> (present (storage c AUTH_TOKEN) \<and> present (storage c USER_DATA))"
  shows "initializeAuth L now c = c\<lparr>loading := False\<rparr>"
  using assms
  by (auto simp: initializeAuth_def Let_def getItem_def present_def split: option.splits)

lemma initializeAuth_restore:
  assumes "storage c AUTH_TOKEN = Some t" "t \<noteq> []" "storage c USER_DATA = Some ud" "ud \<noteq> []"
    and "jwtDecode L t = Decoded (Some e)" "\<not> e < to_double (of_int now / 1000)"
    and "JSON_parse L ud = Some v"
  shows "initializeAuth L now c = c\<lparr>user := v, loading := False\<rparr>"
  using assms by (simp add: initializeAuth_def Let_def getItem_def)

lemma initializeAuth_expired:
  assumes "storage c AUTH_TOKEN = Some t" "t \<noteq> []" "storage c USER_DATA = Some ud" "ud \<noteq> []"
    and "jwtDecode L t = Decoded (Some e)" "e < to_double (of_int now / 1000)"
  shows "initializeAuth L now c = (clearStored c)\<lparr>loading := False\<rparr>"
  using assms by (simp add: initializeAuth_def Let_def getItem_def)

lemma initializeAuth_journal:
  "journal (initializeAuth L now c) = journal c \<and> storage (initializeAuth L now c) = storage c
   \<or> journal (initializeAuth L now c) = journal c @ [RemoveItem AUTH_TOKEN, RemoveItem USER_DATA]
     \<and> storage (initializeAuth L now c) = (storage c)(AUTH_TOKEN := None, USER_DATA := None)"
  by (auto simp: initializeAuth_def Let_def clearStored_simps
      split: option.splits decoded.splits if_splits)

lemma initializeAuth_frame:
  "sent (initializeAuth L now c) = sent c" "pathname (initializeAuth L now c) = pathname c"
  "navigation (initializeAuth L now c) = navigation c"
  by (auto simp: initializeAuth_def Let_def clearStored_simps
      split: option.splits decoded.splits if_splits)

lemma sample_facts:
  "storage sample_client AUTH_TOKEN = Some ''header.payload.signature''"
  "storage sample_client USER_DATA = Some ''{...}''"
  "jwtDecode sample_libs ''header.payload.signature'' = Decoded (Some (of_int 1700604800))"
  "JSON_parse sample_libs ''{...}'' =
     Some (JObj [(''id'', JStr ''65a1''), (''name'', JStr ''Alice''), (''email'', JStr ''a@x.com'')])"
  "journal sample_client = []" "pathname sample_client = ''/chat''" "sent sample_client = []"
  by (simp_all add: sample_client_def sample_libs_def AUTH_TOKEN_def USER_DATA_def)

text \<open>
  Claim C5. At start-up with both values persisted, the token decoding to an expiry of a
  whole number of seconds, as in every token the login route signs, and the clock within
  the range of \<^verbatim>\<open>Date\<close>: if the expiry is in the future and the stored projection
  parses to an object, the manager ends Authenticated with that projection as its user,
  storage is as it was, nothing was written or removed, and no request was sent; if the
  expiry is in the past, both persisted values are gone and it ends Anonymous.
\<close>

theorem initialize_both_present:
  assumes "storage c AUTH_TOKEN = Some t" and "t \<noteq> []"
    and "storage c USER_DATA = Some ud" and "ud \<noteq> []"
    and "jwtDecode L t = Decoded (Some (of_int k))"
    and "\<bar>now\<bar> \<le> 8640000000000000"
  shows "(now < k * 1000 \<and> JSON_parse L ud = Some (JObj kvs) \<longrightarrow>
            user (page_load L now path c) = JObj kvs
          \<and> isAuthenticated (page_load L now path c)
          \<and> storage (page_load L now path c) = storage c
          \<and> journal (page_load L now path c) = journal c
          \<and> sent (page_load L now path c) = sent c)
       \<and> (k * 1000 < now \<longrightarrow>
            storage (page_load L now path c) AUTH_TOKEN = None
          \<and> storage (page_load L now path c) USER_DATA = None
          \<and> user (page_load L now path c) = JNull
          \<and> \<not> isAuthenticated (page_load L now path c)
          \<and> sent (page_load L now path c) = sent c)"
proof -
  let ?c0 = "c\<lparr>user := JNull, loading := True, error := JNull, pathname := path, navigation := None\<rparr>"
  note cmp = now_whole_seconds [OF assms(6), of k]
  have s: "storage ?c0 AUTH_TOKEN = Some t" "storage ?c0 USER_DATA = Some ud"
    using assms(1,3) by simp_all
  have a: "now < k * 1000 \<and> JSON_parse L ud = Some (JObj kvs) \<longrightarrow>
      page_load L now path c = ?c0\<lparr>user := JObj kvs, loading := False\<rparr>"
    using initializeAuth_restore [OF s(1) assms(2) s(2) assms(4,5), of now "JObj kvs"] cmp
    by (auto simp: page_load_def)
  have b: "k * 1000 < now \<longrightarrow> page_load L now path c = (clearStored ?c0)\<lparr>loading := False\<rparr>"
    using initializeAuth_expired [OF s(1) assms(2) s(2) assms(4,5), of now] cmp
    by (auto simp: page_load_def)
  show ?thesis
    using a b by (auto simp: isAuthenticated_def clearStored_simps)
qed

theorem initialize_both_present_witness:
  "user (page_load sample_libs 1700000000123 ''/chat'' sample_client) =
      JObj [(''id'', JStr ''65a1''), (''name'', JStr ''Alice''), (''email'', JStr ''a@x.com'')]
   \<and> isAuthenticated (page_load sample_libs 1700000000123 ''/chat'' sample_client)
   \<and> storage (page_load sample_libs 1700000000123 ''/chat'' sample_client) = storage sample_client
   \<and> sent (page_load sample_libs 1700000000123 ''/chat'' sample_client) = []
   \<and> storage (page_load sample_libs 1800000000000 ''/chat'' sample_client) AUTH_TOKEN = None
   \<and> storage (page_load sample_libs 1800000000000 ''/chat'' sample_client) USER_DATA = None
   \<and> \<not> isAuthenticated (page_load sample_libs 1800000000000 ''/chat'' sample_client)"
proof -
  have ne: "''header.payload.signature'' \<noteq> []" "''{...}'' \<noteq> []" by simp_all
  have r1: "\<bar>1700000000123 :: int\<bar> \<le> 8640000000000000"
    and r2: "\<bar>1800000000000 :: int\<bar> \<le> 8640000000000000" by simp_all
  have t1: "(1700000000123 :: int) < 1700604800 * 1000" by simp
  have t2: "(1700604800 :: int) * 1000 < 1800000000000" by simp
  note w1 = initialize_both_present [OF sample_facts(1) ne(1) sample_facts(2) ne(2)
      sample_facts(3) r1, of _ "''/chat''"]
  note w2 = initialize_both_present [OF sample_facts(1) ne(1) sample_facts(2) ne(2)
      sample_facts(3) r2, of _ "''/chat''"]
  from w1 [THEN conjunct1, rule_format, OF conjI, OF t1 sample_facts(4)]
    w2 [THEN conjunct2, rule_format, OF t2]
  show ?thesis by (simp add: sample_facts)
qed

subsection \<open>A token stored alone\<close>

lemma page_load_absent:
  assumes "\<not> (present (storage c AUTH_TOKEN) \<and> present (storage c USER_DATA))"
  shows "page_load L now path c =
     c\<lparr>user := JNull, loading := False, error := JNull, pathname := path, navigation := None\<rparr>"
  using assms by (simp add: page_load_def initializeAuth_absent)

lemma receive_Inr: "receive r c = (Inr d, c') \<Longrightarrow> c' = c"
  by (auto simp: receive_def split: reply.splits if_splits)

lemma receive_effect:
  "snd (receive r c) = c
   \<or> storage (snd (receive r c)) = (storage c)(AUTH_TOKEN := None, USER_DATA := None)
     \<and> journal (snd (receive r c)) = journal c @ [RemoveItem AUTH_TOKEN, RemoveItem USER_DATA]
     \<and> sent (snd (receive r c)) = sent c"
  by (auto simp: receive_def response_error_interceptor_def removeItem_def Let_def
      split: reply.splits js_error.splits)

lemma fail_frame:
  "journal (snd (fail err c)) = journal c" "storage (snd (fail err c)) = storage c"
  "sent (snd (fail err c)) = sent c"
  by (simp_all add: fail_def Let_def)

text \<open>What a login does to storage once its response is in.\<close>

lemma login_finish_effect:
  "journal (snd (login_finish L r c)) = journal c \<and> storage (snd (login_finish L r c)) = storage c
   \<or> journal (snd (login_finish L r c)) = journal c @ [RemoveItem AUTH_TOKEN, RemoveItem USER_DATA]
   \<or> (\<exists>t. journal (snd (login_finish L r c)) = journal c @ [SetItem AUTH_TOKEN t]
          \<and> (\<exists>stored v. quota_error L stored USER_DATA v \<noteq> None))
   \<or> (\<exists>t u. journal (snd (login_finish L r c)) = journal c @ [SetItem AUTH_TOKEN t, SetItem USER_DATA u])"
proof (cases "receive r c")
  case (Pair res c1)
  show ?thesis
  proof (cases res)
    case (Inl err)
    with Pair receive_effect [of r c] show ?thesis
      by (auto simp: login_finish_def fail_frame)
  next
    case (Inr response)
    with Pair have c1: "c1 = c" by (auto dest: receive_Inr)
    show ?thesis
      using Pair Inr c1
      by (auto simp: login_finish_def fail_frame setItem_def split: option.splits)
  qed
qed

lemma login_finish_sent: "sent (snd (login_finish L r c)) = sent c"
proof (cases "receive r c")
  case (Pair res c1)
  show ?thesis
  proof (cases res)
    case (Inl err)
    with Pair receive_effect [of r c] show ?thesis
      by (auto simp: login_finish_def fail_frame)
  next
    case (Inr response)
    with Pair have c1: "c1 = c" by (auto dest: receive_Inr)
    show ?thesis
      using Pair Inr c1
      by (auto simp: login_finish_def fail_frame setItem_def split: option.splits)
  qed
qed

lemma register_finish_effect:
  "journal (snd (register_finish r c)) = journal c
     \<and> storage (snd (register_finish r c)) = storage c
   \<or> journal (snd (register_finish r c)) = journal c @ [RemoveItem AUTH_TOKEN, RemoveItem USER_DATA]"
  using receive_effect [of r c]
  by (cases "receive r c"; cases "fst (receive r c)")
    (auto simp: register_finish_def fail_frame dest: receive_Inr)

lemma register_finish_sent: "sent (snd (register_finish r c)) = sent c"
  using receive_effect [of r c]
  by (cases "receive r c"; cases "fst (receive r c)")
    (auto simp: register_finish_def fail_frame dest: receive_Inr)

lemma page_load_effect:
  "journal (page_load L now path c) = journal c \<and> storage (page_load L now path c) = storage c
   \<or> journal (page_load L now path c) = journal c @ [RemoveItem AUTH_TOKEN, RemoveItem USER_DATA]"
  using initializeAuth_journal [of L now
      "c\<lparr>user := JNull, loading := True, error := JNull, pathname := path, navigation := None\<rparr>"]
  by (auto simp: page_load_def)

text \<open>An operation that leaves the journal as it was has left storage as it was.\<close>

lemma step_effect:
  "journal (step L e c) = journal c \<and> storage (step L e c) = storage c
   \<or> (\<exists>d. d \<noteq> [] \<and> journal (step L e c) = journal c @ d)"
proof (cases e)
  case (PageLoad now path)
  then show ?thesis using page_load_effect [of L now path c] by auto
next
  case (LoginFinish r)
  then show ?thesis using login_finish_effect [of L r c] by auto
next
  case (RegisterFinish r)
  then show ?thesis using register_finish_effect [of r c] by auto
next
  case (ApiReceive r)
  then show ?thesis using receive_effect [of r c] by auto
qed (auto simp: login_start_def register_start_def send_def logout_def clearError_def removeItem_def)

lemma step_prefix: "\<exists>d. journal (step L e c) = journal c @ d"
  using step_effect [of L e c] by auto

lemma run_prefix: "\<exists>d. journal (run L es c) = journal c @ d"
proof (induction es arbitrary: c)
  case Nil
  then show ?case by simp
next
  case (Cons e es)
  obtain d1 where "journal (step L e c) = journal c @ d1" using step_prefix by blast
  moreover obtain d2 where "journal (run L es (step L e c)) = journal (step L e c) @ d2"
    using Cons.IH by blast
  ultimately show ?case by simp
qed

lemma send_attaches:
  assumes "storage c AUTH_TOKEN = Some t" "t \<noteq> []"
  shows "send config c =
     c\<lparr>sent := sent c @ [config\<lparr>headers := (headers config)(''x-auth-token'' \<mapsto> t)\<rparr>]\<rparr>"
  using assms by (simp add: send_def request_interceptor_def getItem_def)

text \<open>While the token is stored, whatever an operation sends carries it.\<close>

lemma step_sent:
  assumes "storage c AUTH_TOKEN = Some t" "t \<noteq> []"
  shows "\<exists>rs. sent (step L e c) = sent c @ rs \<and> (\<forall>r \<in> set rs. headers r ''x-auth-token'' = Some t)"
proof (cases e)
  case (PageLoad now path)
  then show ?thesis by (simp add: page_load_def initializeAuth_frame)
next
  case (LoginStart email password)
  then show ?thesis using assms by (simp add: login_start_def send_attaches)
next
  case (LoginFinish r)
  then show ?thesis by (simp add: login_finish_sent)
next
  case (RegisterStart name email password interests)
  then show ?thesis using assms by (simp add: register_start_def send_attaches)
next
  case (RegisterFinish r)
  then show ?thesis by (simp add: register_finish_sent)
next
  case Logout
  then show ?thesis by (simp add: logout_def removeItem_def)
next
  case ClearError
  then show ?thesis by (simp add: clearError_def)
next
  case (ApiSend config)
  then show ?thesis using assms by (simp add: send_attaches)
next
  case (ApiReceive r)
  then show ?thesis using receive_effect [of r c] by auto
qed

lemma run_sent:
  assumes "storage c AUTH_TOKEN = Some t" "t \<noteq> []" "journal (run L es c) = journal c"
  shows "\<exists>rs. sent (run L es c) = sent c @ rs \<and> (\<forall>r \<in> set rs. headers r ''x-auth-token'' = Some t)"
  using assms
proof (induction es arbitrary: c)
  case Nil
  then show ?case by simp
next
  case (Cons e es)
  obtain d1 where d1: "journal (step L e c) = journal c @ d1" using step_prefix by blast
  obtain d2 where d2: "journal (run L es (step L e c)) = journal (step L e c) @ d2"
    using run_prefix by blast
  from Cons.prems(3) d1 d2 have "d1 = []" "d2 = []" by simp_all
  with d1 d2 have j: "journal (step L e c) = journal c"
    "journal (run L es (step L e c)) = journal (step L e c)" by simp_all
  with step_effect [of L e c] have "storage (step L e c) = storage c" by auto
  with Cons.prems(1) have tok: "storage (step L e c) AUTH_TOKEN = Some t" by simp
  obtain rs1 where rs1: "sent (step L e c) = sent c @ rs1"
      "\<forall>r \<in> set rs1. headers r ''x-auth-token'' = Some t"
    using step_sent [OF Cons.prems(1,2)] by blast
  obtain rs2 where rs2: "sent (run L es (step L e c)) = sent (step L e c) @ rs2"
      "\<forall>r \<in> set rs2. headers r ''x-auth-token'' = Some t"
    using Cons.IH [OF tok Cons.prems(2) j(2)] by blast
  from rs1 rs2 have "sent (run L (e # es) c) = sent c @ (rs1 @ rs2)"
    "\<forall>r \<in> set (rs1 @ rs2). headers r ''x-auth-token'' = Some t"
    by auto
  then show ?case by blast
qed

text \<open>
  Claim C10 as stated fails for the requests that follow a change of storage. After a
  start-up with the token alone, the first request carries it; the 401 that answers it
  makes the interceptor remove the token, and the next request carries none.
\<close>

theorem orphan_token_after_rejection_counterexample:
  "headers (hd (sent (run sample_libs
       [ApiSend (json_request ''/chat'' (JObj [(''message'', JStr ''hello'')])),
        ApiReceive (Reply 401 (JObj [(''msg'', JStr ''Token is not valid'')])),
        ApiSend (json_request ''/schemes'' JUndefined)]
       (page_load sample_libs 1700000000123 ''/chat''
          (sample_client\<lparr>storage := [''token'' \<mapsto> ''header.payload.signature'']\<rparr>)))))
     ''x-auth-token'' = Some ''header.payload.signature''
   \<and> headers (last (sent (run sample_libs
       [ApiSend (json_request ''/chat'' (JObj [(''message'', JStr ''hello'')])),
        ApiReceive (Reply 401 (JObj [(''msg'', JStr ''Token is not valid'')])),
        ApiSend (json_request ''/schemes'' JUndefined)]
       (page_load sample_libs 1700000000123 ''/chat''
          (sample_client\<lparr>storage := [''token'' \<mapsto> ''header.payload.signature'']\<rparr>)))))
     ''x-auth-token'' = None"
proof -
  let ?c = "sample_client\<lparr>storage := [''token'' \<mapsto> ''header.payload.signature'']\<rparr>"
  have "\<not> (present (storage ?c AUTH_TOKEN) \<and> present (storage ?c USER_DATA))"
    by (simp add: present_def USER_DATA_def)
  then have "page_load sample_libs 1700000000123 ''/chat'' ?c =
      ?c\<lparr>user := JNull, loading := False, error := JNull, pathname := ''/chat'',
          navigation := None\<rparr>"
    by (rule page_load_absent)
  then show ?thesis
    by (simp add: send_def request_interceptor_def getItem_def receive_def
        response_error_interceptor_def removeItem_def Let_def json_request_def
        sample_client_def AUTH_TOKEN_def USER_DATA_def)
qed

text \<open>
  Claim C10, amended. At start-up with exactly one of the two values present (a non-empty
  string, which is what the code tests), the manager ends Anonymous and storage is as it
  was: nothing is written or removed. If the value present is the token, the request
  interceptor puts it in the \<^verbatim>\<open>x-auth-token\<close> header of every request sent from
  then on until storage is next written or cleared: every request sent in a run of
  operations, whichever they are, that performs no \<^verbatim>\<open>setItem\<close> and no
  \<^verbatim>\<open>removeItem\<close>.
\<close>

theorem initialize_orphan:
  assumes "present (storage c AUTH_TOKEN) \<noteq> present (storage c USER_DATA)"
  shows "\<not> isAuthenticated (page_load L now path c)
       \<and> storage (page_load L now path c) = storage c
       \<and> journal (page_load L now path c) = journal c
       \<and> (\<forall>t es. storage c AUTH_TOKEN = Some t \<and> t \<noteq> []
               \<and> journal (run L es (page_load L now path c)) = journal (page_load L now path c)
             \<longrightarrow> (\<forall>r \<in> set (drop (length (sent (page_load L now path c)))
                               (sent (run L es (page_load L now path c)))).
                    headers r ''x-auth-token'' = Some t))"
proof -
  have "\<not> (present (storage c AUTH_TOKEN) \<and> present (storage c USER_DATA))"
    using assms by auto
  then have pl: "page_load L now path c =
     c\<lparr>user := JNull, loading := False, error := JNull, pathname := path, navigation := None\<rparr>"
    by (rule page_load_absent)
  have st: "storage (page_load L now path c) = storage c"
    by (simp add: pl)
  have "\<forall>t es. storage c AUTH_TOKEN = Some t \<and> t \<noteq> []
               \<and> journal (run L es (page_load L now path c)) = journal (page_load L now path c)
             \<longrightarrow> (\<forall>r \<in> set (drop (length (sent (page_load L now path c)))
                               (sent (run L es (page_load L now path c)))).
                    headers r ''x-auth-token'' = Some t)"
  proof (intro allI impI)
    fix t es
    assume h: "storage c AUTH_TOKEN = Some t \<and> t \<noteq> []
               \<and> journal (run L es (page_load L now path c)) = journal (page_load L now path c)"
    then have "storage (page_load L now path c) AUTH_TOKEN = Some t"
      by (simp add: st)
    with h obtain rs where
      "sent (run L es (page_load L now path c)) = sent (page_load L now path c) @ rs"
      "\<forall>r \<in> set rs. headers r ''x-auth-token'' = Some t"
      using run_sent [of "page_load L now path c" t L es] by blast
    then show "\<forall>r \<in> set (drop (length (sent (page_load L now path c)))
                               (sent (run L es (page_load L now path c)))).
                    headers r ''x-auth-token'' = Some t"
      by simp
  qed
  then show ?thesis
    by (simp add: pl isAuthenticated_def)
qed

theorem initialize_orphan_witness:
  "\<not> isAuthenticated
       (page_load sample_libs 1700000000123 ''/chat''
          (sample_client\<lparr>storage := [''token'' \<mapsto> ''header.payload.signature'']\<rparr>))
   \<and> storage (page_load sample_libs 1700000000123 ''/chat''
          (sample_client\<lparr>storage := [''token'' \<mapsto> ''header.payload.signature'']\<rparr>))
       = [''token'' \<mapsto> ''header.payload.signature'']
   \<and> length (sent (run sample_libs
          [ApiSend (json_request ''/chat'' (JObj [(''message'', JStr ''hello'')])),
           ApiReceive (Reply 200 (JObj [(''message'', JStr ''Hello!'')])),
           ApiReceive (Reply 500 (JObj [(''msg'', JStr ''down'')])),
           LoginStart ''a@x.com'' ''wrong'',
           LoginFinish (Reply 400 (JObj [(''msg'', JStr ''Invalid credentials'')])),
           ApiSend (json_request ''/schemes'' JUndefined)]
          (page_load sample_libs 1700000000123 ''/chat''
             (sample_client\<lparr>storage := [''token'' \<mapsto> ''header.payload.signature'']\<rparr>)))) = 3
   \<and> headers (sent (run sample_libs
          [ApiSend (json_request ''/chat'' (JObj [(''message'', JStr ''hello'')])),
           ApiReceive (Reply 200 (JObj [(''message'', JStr ''Hello!'')])),
           ApiReceive (Reply 500 (JObj [(''msg'', JStr ''down'')])),
           LoginStart ''a@x.com'' ''wrong'',
           LoginFinish (Reply 400 (JObj [(''msg'', JStr ''Invalid credentials'')])),
           ApiSend (json_request ''/schemes'' JUndefined)]
          (page_load sample_libs 1700000000123 ''/chat''
             (sample_client\<lparr>storage := [''token'' \<mapsto> ''header.payload.signature'']\<rparr>))) ! 0)
        ''x-auth-token'' = Some ''header.payload.signature''
   \<and> headers (sent (run sample_libs
          [ApiSend (json_request ''/chat'' (JObj [(''message'', JStr ''hello'')])),
           ApiReceive (Reply 200 (JObj [(''message'', JStr ''Hello!'')])),
           ApiReceive (Reply 500 (JObj [(''msg'', JStr ''down'')])),
           LoginStart ''a@x.com'' ''wrong'',
           LoginFinish (Reply 400 (JObj [(''msg'', JStr ''Invalid credentials'')])),
           ApiSend (json_request ''/schemes'' JUndefined)]
          (page_load sample_libs 1700000000123 ''/chat''
             (sample_client\<lparr>storage := [''token'' \<mapsto> ''header.payload.signature'']\<rparr>))) ! 1)
        ''x-auth-token'' = Some ''header.payload.signature''
   \<and> headers (sent (run sample_libs
          [ApiSend (json_request ''/chat'' (JObj [(''message'', JStr ''hello'')])),
           ApiReceive (Reply 200 (JObj [(''message'', JStr ''Hello!'')])),
           ApiReceive (Reply 500 (JObj [(''msg'', JStr ''down'')])),
           LoginStart ''a@x.com'' ''wrong'',
           LoginFinish (Reply 400 (JObj [(''msg'', JStr ''Invalid credentials'')])),
           ApiSend (json_request ''/schemes'' JUndefined)]
          (page_load sample_libs 1700000000123 ''/chat''
             (sample_client\<lparr>storage := [''token'' \<mapsto> ''header.payload.signature'']\<rparr>))) ! 2)
        ''x-auth-token'' = Some ''header.payload.signature''"
proof -
  let ?c = "sample_client\<lparr>storage := [''token'' \<mapsto> ''header.payload.signature'']\<rparr>"
  let ?es = "[ApiSend (json_request ''/chat'' (JObj [(''message'', JStr ''hello'')])),
           ApiReceive (Reply 200 (JObj [(''message'', JStr ''Hello!'')])),
           ApiReceive (Reply 500 (JObj [(''msg'', JStr ''down'')])),
           LoginStart ''a@x.com'' ''wrong'',
           LoginFinish (Reply 400 (JObj [(''msg'', JStr ''Invalid credentials'')])),
           ApiSend (json_request ''/schemes'' JUndefined)]"
  let ?p = "page_load sample_libs 1700000000123 ''/chat'' ?c"
  have h: "present (storage ?c AUTH_TOKEN) \<noteq> present (storage ?c USER_DATA)"
    by (simp add: present_def AUTH_TOKEN_def USER_DATA_def)
  then have "\<not> (present (storage ?c AUTH_TOKEN) \<and> present (storage ?c USER_DATA))"
    by auto
  then have pl: "?p = ?c\<lparr>user := JNull, loading := False, error := JNull, pathname := ''/chat'',
          navigation := None\<rparr>"
    by (rule page_load_absent)
  have s: "storage ?c AUTH_TOKEN = Some ''header.payload.signature''
      \<and> ''header.payload.signature'' \<noteq> []"
    by (simp add: AUTH_TOKEN_def)
  have j: "journal (run sample_libs ?es ?p) = journal ?p"
    by (simp add: pl send_def receive_def response_error_interceptor_def login_start_def
        login_finish_def fail_def Let_def)
  have n: "sent ?p = []" "length (sent (run sample_libs ?es ?p)) = 3"
    by (simp_all add: pl send_def receive_def response_error_interceptor_def login_start_def
        login_finish_def fail_def Let_def sample_facts)
  note w = initialize_orphan [OF h, of sample_libs 1700000000123 "''/chat''"]
  from w have a: "\<not> isAuthenticated ?p" and b: "storage ?p = storage ?c"
    by simp_all
  from w s j have "\<forall>r \<in> set (drop (length (sent ?p)) (sent (run sample_libs ?es ?p))).
        headers r ''x-auth-token'' = Some ''header.payload.signature''"
    by blast
  with n(1) have c: "\<forall>r \<in> set (sent (run sample_libs ?es ?p)).
        headers r ''x-auth-token'' = Some ''header.payload.signature''"
    by simp
  have "\<forall>i < 3. headers (sent (run sample_libs ?es ?p) ! i) ''x-auth-token''
      = Some ''header.payload.signature''"
    using c n(2) by (metis nth_mem)
  then have d: "headers (sent (run sample_libs ?es ?p) ! 0) ''x-auth-token''
      = Some ''header.payload.signature''"
    "headers (sent (run sample_libs ?es ?p) ! 1) ''x-auth-token''
      = Some ''header.payload.signature''"
    "headers (sent (run sample_libs ?es ?p) ! 2) ''x-auth-token''
      = Some ''header.payload.signature''"
    by simp_all
  from a b n(2) d show ?thesis by simp
qed

subsection \<open>The two persisted values are handled together\<close>





lemma receive_401_storage:
  "storage (snd (receive (Reply 401 d) c)) = (storage c)(AUTH_TOKEN := None, USER_DATA := None)"
  "journal (snd (receive (Reply 401 d) c)) = journal c @ [RemoveItem AUTH_TOKEN, RemoveItem USER_DATA]"
  "user (snd (receive (Reply 401 d) c)) = user c"
  "fst (receive (Reply 401 d) c) = Inl (HttpError 401 d)"
  by (simp_all add: receive_def response_error_interceptor_def Let_def removeItem_def)




subsection \<open>Rejection by the backend\<close>

lemma login_finish_401:
  "snd (login_finish L (Reply 401 d) c) =
     (snd (receive (Reply 401 d) c))\<lparr>error := formatErrorMessage (HttpError 401 d), loading := False\<rparr>"
  by (simp add: login_finish_def receive_def fail_def Let_def)

lemma register_finish_401:
  "snd (register_finish (Reply 401 d) c) =
     (snd (receive (Reply 401 d) c))\<lparr>error := formatErrorMessage (HttpError 401 d), loading := False\<rparr>"
  by (simp add: register_finish_def receive_def fail_def Let_def)

lemma receive_401_navigation:
  "navigation (snd (receive (Reply 401 d) c)) =
     (if pathname c \<noteq> ''/login'' then Some ''/login'' else navigation c)"
  by (simp add: receive_def response_error_interceptor_def Let_def removeItem_def)

text \<open>
  Claim C7 as stated fails on the login page: there the interceptor removes the persisted
  values but neither redirects nor touches the provider's state, and the user stays
  Authenticated in memory.
\<close>

theorem rejection_on_login_page_counterexample:
  "isAuthenticated
     (snd (receive (Reply 401 (JObj [(''msg'', JStr ''Token is not valid'')]))
        \<lparr>storage = [''token'' \<mapsto> ''header.payload.signature'', ''user'' \<mapsto> ''{...}''],
         journal = [], sent = [],
         user = JObj [(''id'', JStr ''65a1''), (''name'', JStr ''Alice''), (''email'', JStr ''a@x.com'')],
         loading = False, error = JNull, pathname = ''/login'', navigation = None\<rparr>))
   \<and> navigation
     (snd (receive (Reply 401 (JObj [(''msg'', JStr ''Token is not valid'')]))
        \<lparr>storage = [''token'' \<mapsto> ''header.payload.signature'', ''user'' \<mapsto> ''{...}''],
         journal = [], sent = [],
         user = JObj [(''id'', JStr ''65a1''), (''name'', JStr ''Alice''), (''email'', JStr ''a@x.com'')],
         loading = False, error = JNull, pathname = ''/login'', navigation = None\<rparr>)) = None"
  by (simp add: receive_def response_error_interceptor_def Let_def removeItem_def
      isAuthenticated_def)

text \<open>
  Claim C7, amended. On a 401 response to any request, the interceptor removes both the
  persisted token and the persisted user projection, whichever operation awaited the
  response; a start-up that follows finds neither value, changes nothing in storage and
  ends Anonymous. Unless the page is the login page it also redirects there, and the page
  load of that redirect is what ends the session in memory; on the login page the user
  in memory is left as it is.
\<close>

theorem rejection_clears_persisted:
  "storage (snd (receive (Reply 401 d) c)) AUTH_TOKEN = None
   \<and> storage (snd (receive (Reply 401 d) c)) USER_DATA = None
   \<and> journal (snd (receive (Reply 401 d) c)) =
       journal c @ [RemoveItem AUTH_TOKEN, RemoveItem USER_DATA]
   \<and> (\<forall>e \<in> {LoginFinish (Reply 401 d), RegisterFinish (Reply 401 d), ApiReceive (Reply 401 d)}.
         storage (step L e c) AUTH_TOKEN = None \<and> storage (step L e c) USER_DATA = None)
   \<and> (pathname c \<noteq> ''/login'' \<longrightarrow> navigation (snd (receive (Reply 401 d) c)) = Some ''/login'')
   \<and> (pathname c = ''/login'' \<longrightarrow>
         navigation (snd (receive (Reply 401 d) c)) = navigation c
       \<and> user (snd (receive (Reply 401 d) c)) = user c)
   \<and> storage (page_load L now path (snd (receive (Reply 401 d) c))) AUTH_TOKEN = None
   \<and> storage (page_load L now path (snd (receive (Reply 401 d) c))) USER_DATA = None
   \<and> journal (page_load L now path (snd (receive (Reply 401 d) c))) =
       journal (snd (receive (Reply 401 d) c))
   \<and> \<not> isAuthenticated (page_load L now path (snd (receive (Reply 401 d) c)))"
proof -
  let ?c' = "snd (receive (Reply 401 d) c)"
  have st: "storage ?c' AUTH_TOKEN = None" "storage ?c' USER_DATA = None"
    by (simp_all add: receive_401_storage)
  then have "\<not> (present (storage ?c' AUTH_TOKEN) \<and> present (storage ?c' USER_DATA))"
    by (simp add: present_def)
  then have pl: "page_load L now path ?c' =
      ?c'\<lparr>user := JNull, loading := False, error := JNull, pathname := path, navigation := None\<rparr>"
    by (rule page_load_absent)
  have ops: "\<forall>e \<in> {LoginFinish (Reply 401 d), RegisterFinish (Reply 401 d), ApiReceive (Reply 401 d)}.
         storage (step L e c) AUTH_TOKEN = None \<and> storage (step L e c) USER_DATA = None"
    using st by (simp add: login_finish_401 register_finish_401)
  have nav: "pathname c \<noteq> ''/login'' \<longrightarrow> navigation ?c' = Some ''/login''"
    "pathname c = ''/login'' \<longrightarrow> navigation ?c' = navigation c \<and> user ?c' = user c"
    by (simp_all add: receive_401_navigation receive_401_storage)
  have j: "journal ?c' = journal c @ [RemoveItem AUTH_TOKEN, RemoveItem USER_DATA]"
    by (simp add: receive_401_storage)
  have after: "storage (page_load L now path ?c') AUTH_TOKEN = None"
    "storage (page_load L now path ?c') USER_DATA = None"
    "journal (page_load L now path ?c') = journal ?c'"
    "\<not> isAuthenticated (page_load L now path ?c')"
    using st by (simp_all add: pl isAuthenticated_def)
  from st j ops nav after show ?thesis by blast
qed

theorem rejection_clears_persisted_witness:
  "storage (snd (receive (Reply 401 JNull) sample_client)) AUTH_TOKEN = None
   \<and> storage (snd (receive (Reply 401 JNull) sample_client)) USER_DATA = None
   \<and> storage (step sample_libs (LoginFinish (Reply 401 JNull)) sample_client) AUTH_TOKEN = None
   \<and> navigation (snd (receive (Reply 401 JNull) sample_client)) = Some ''/login''
   \<and> user (snd (receive (Reply 401 JNull)
         (sample_client\<lparr>pathname := ''/login'', user := JBool True\<rparr>))) = JBool True
   \<and> \<not> isAuthenticated (page_load sample_libs 1700000000123 ''/login''
         (snd (receive (Reply 401 JNull) sample_client)))"
proof -
  note a = rejection_clears_persisted [of JNull sample_client sample_libs 1700000000123 "''/login''"]
  note b = rejection_clears_persisted [of JNull
      "sample_client\<lparr>pathname := ''/login'', user := JBool True\<rparr>" sample_libs 1700000000123
      "''/login''"]
  have p: "pathname sample_client \<noteq> ''/login''"
    "pathname (sample_client\<lparr>pathname := ''/login'', user := JBool True\<rparr>) = ''/login''"
    "user (sample_client\<lparr>pathname := ''/login'', user := JBool True\<rparr>) = JBool True"
    by (simp_all add: sample_facts)
  from a b p show ?thesis by simp
qed

end
